theory Spec2Isabelle
  imports Main
begin

section \<open>JavaScript values\<close>

text \<open>
  The gateway is one file, \<^verbatim>\<open>src/api/index.js\<close>: an Express application whose handlers read
  fields of the incoming request, call the remote content store with \<^verbatim>\<open>fetch\<close>, and answer
  with \<^verbatim>\<open>res.json\<close> or \<^verbatim>\<open>res.send\<close>. Request bodies, query parameters and the JSON of the
  remote's answers are dynamically typed, so the model carries them as JavaScript values.

  Scope of the value type: numbers are the integers (rendered in plain decimal, which is
  what JavaScript prints for every integer of fewer than 22 digits; fractions are out of scope). A
  string is the list of bytes of its UTF-8 encoding, so a string of the model stands for a
  well-formed JavaScript string (one without a lone surrogate); nothing in the source counts
  characters. An object is the list of its properties, each listed once; its properties
  are data (an object that carries a \<^verbatim>\<open>toString\<close> or \<^verbatim>\<open>valueOf\<close> of its own, which a
  template literal would call, is out of scope).
\<close>

datatype jsval =
    JUndefined
  | JNull
  | JBool bool
  | JNum int
  | JStr string
  | JArr "jsval list"
  | JObj "(string \<times> jsval) list"

text \<open>What \<^verbatim>\<open>if (v)\<close>, \<^verbatim>\<open>!v\<close> and \<^verbatim>\<open>v || d\<close> test.\<close>

fun truthy :: "jsval \<Rightarrow> bool" where
  "truthy JUndefined = False"
| "truthy JNull = False"
| "truthy (JBool b) = b"
| "truthy (JNum n) = (n \<noteq> 0)"
| "truthy (JStr s) = (s \<noteq> [])"
| "truthy (JArr xs) = True"
| "truthy (JObj kvs) = True"

definition js_or :: "jsval \<Rightarrow> jsval \<Rightarrow> jsval" where
  "js_or a b = (if truthy a then a else b)"

definition digit :: "nat \<Rightarrow> char" where
  "digit d = char_of (48 + d)"

fun show_nat :: "nat \<Rightarrow> string" where
  "show_nat n = (if n < 10 then [digit n] else show_nat (n div 10) @ [digit (n mod 10)])"

declare show_nat.simps [simp del]

definition show_int :: "int \<Rightarrow> string" where
  "show_int i = (if i < 0 then CHR ''-'' # show_nat (nat (- i)) else show_nat (nat i))"

text \<open>
  \<^verbatim>\<open>Array.prototype.join\<close> with the separator \<^verbatim>\<open>,\<close>: the elements and their renderings side
  by side, \<^verbatim>\<open>null\<close> and \<^verbatim>\<open>undefined\<close> rendered empty.
\<close>

fun join_elems :: "jsval list \<Rightarrow> string list \<Rightarrow> string" where
  "join_elems (v # w # vs) (s # ss) =
     (if v = JUndefined \<or> v = JNull then [] else s) @ '','' @ join_elems (w # vs) ss"
| "join_elems [v] (s # ss) = (if v = JUndefined \<or> v = JNull then [] else s)"
| "join_elems _ _ = []"

text \<open>The string a template literal \<^verbatim>\<open>`${v}`\<close> interpolates.\<close>

primrec to_string :: "jsval \<Rightarrow> string" where
  "to_string JUndefined = ''undefined''"
| "to_string JNull = ''null''"
| "to_string (JBool b) = (if b then ''true'' else ''false'')"
| "to_string (JNum n) = show_int n"
| "to_string (JStr s) = s"
| "to_string (JArr xs) = join_elems xs (map to_string xs)"
| "to_string (JObj kvs) = ''[object Object]''"

definition field :: "(string \<times> jsval) list \<Rightarrow> string \<Rightarrow> jsval" where
  "field kvs k = (case map_of kvs k of None \<Rightarrow> JUndefined | Some v \<Rightarrow> v)"

text \<open>
  A thrown value; the handlers only ever read its \<^verbatim>\<open>message\<close>. The texts of the faults the
  engine itself raises are V8's.
\<close>

datatype exn = Error string

fun message :: "exn \<Rightarrow> string" where
  "message (Error m) = m"

definition cannot_read :: "string \<Rightarrow> string \<Rightarrow> exn" where
  "cannot_read what k =
     Error (''Cannot read properties of '' @ what @ '' (reading '' @ [CHR 0x27] @ k @ [CHR 0x27] @ '')'')"

text \<open>
  Property access \<^verbatim>\<open>v.k\<close>, for the property names the source reads (\<^verbatim>\<open>sha\<close>, \<^verbatim>\<open>content\<close>,
  \<^verbatim>\<open>object\<close>, \<^verbatim>\<open>html_url\<close>, \<^verbatim>\<open>login\<close>, \<^verbatim>\<open>type\<close>, \<^verbatim>\<open>path\<close>, \<^verbatim>\<open>name\<close>, \<^verbatim>\<open>number\<close>,
  \<^verbatim>\<open>title\<close>): none of them is a property of a string, a number, a boolean or an array.
\<close>

fun get_prop :: "jsval \<Rightarrow> string \<Rightarrow> exn + jsval" where
  "get_prop JUndefined k = Inl (cannot_read ''undefined'' k)"
| "get_prop JNull k = Inl (cannot_read ''null'' k)"
| "get_prop (JObj kvs) k = Inr (field kvs k)"
| "get_prop _ k = Inr JUndefined"

text \<open>
  \<^verbatim>\<open>JSON.stringify\<close> of an object literal, kept as the JSON value the text denotes: a property
  whose value is \<^verbatim>\<open>undefined\<close> is left out.
\<close>

definition JSON_stringify :: "(string \<times> jsval) list \<Rightarrow> jsval" where
  "JSON_stringify kvs = JObj (filter (\<lambda>(k, v). v \<noteq> JUndefined) kvs)"

section \<open>Byte transforms of the runtime\<close>

text \<open>
  \<^verbatim>\<open>Buffer.prototype.toString('base64')\<close>: the standard alphabet, padded with \<^verbatim>\<open>=\<close>. A buffer
  is the list of its bytes.
\<close>

definition b64_char :: "nat \<Rightarrow> char" where
  "b64_char i =
     (if i < 26 then char_of (65 + i)
      else if i < 52 then char_of (71 + i)
      else if i < 62 then char_of (i - 4)
      else if i = 62 then CHR ''+'' else CHR ''/'')"

fun base64_encode :: "string \<Rightarrow> string" where
  "base64_encode [] = []"
| "base64_encode [a] =
     [b64_char (of_char a div 4), b64_char ((of_char a mod 4) * 16), CHR ''='', CHR ''='']"
| "base64_encode [a, b] =
     [b64_char (of_char a div 4),
      b64_char ((of_char a mod 4) * 16 + of_char b div 16),
      b64_char ((of_char b mod 16) * 4), CHR ''='']"
| "base64_encode (a # b # c # rest) =
     [b64_char (of_char a div 4),
      b64_char ((of_char a mod 4) * 16 + of_char b div 16),
      b64_char ((of_char b mod 16) * 4 + of_char c div 64),
      b64_char (of_char c mod 64)] @ base64_encode rest"

text \<open>
  \<^verbatim>\<open>Buffer.from(s, 'base64')\<close> is lenient: it accepts the URL-safe letters \<^verbatim>\<open>-\<close> and \<^verbatim>\<open>_\<close> as
  well, skips every other character outside the alphabet (the remote store breaks its
  base64 into lines), stops at the first \<^verbatim>\<open>=\<close>, and decodes a trailing group of two or three
  letters to one or two bytes. The text decoded is ASCII, as base64 and its line breaks
  are: a character above U+007F, of which Node looks at the low byte of each UTF-16 unit,
  is out of scope.
\<close>

definition unbase64 :: "char \<Rightarrow> nat option" where
  "unbase64 c =
     (let n = of_char c in
      if 65 \<le> n \<and> n \<le> 90 then Some (n - 65)
      else if 97 \<le> n \<and> n \<le> 122 then Some (n - 71)
      else if 48 \<le> n \<and> n \<le> 57 then Some (n + 4)
      else if c = CHR ''+'' \<or> c = CHR ''-'' then Some 62
      else if c = CHR ''/'' \<or> c = CHR ''_'' then Some 63
      else None)"

fun sextets :: "string \<Rightarrow> nat list" where
  "sextets [] = []"
| "sextets (c # cs) =
     (if c = CHR ''='' then []
      else case unbase64 c of None \<Rightarrow> sextets cs | Some v \<Rightarrow> v # sextets cs)"

fun decode_groups :: "nat list \<Rightarrow> string" where
  "decode_groups (a # b # c # d # rest) =
     [char_of (a * 4 + b div 16), char_of ((b mod 16) * 16 + c div 4),
      char_of ((c mod 4) * 64 + d)] @ decode_groups rest"
| "decode_groups [a, b, c] =
     [char_of (a * 4 + b div 16), char_of ((b mod 16) * 16 + c div 4)]"
| "decode_groups [a, b] = [char_of (a * 4 + b div 16)]"
| "decode_groups _ = []"

definition base64_decode :: "string \<Rightarrow> string" where
  "base64_decode s = decode_groups (sextets s)"

text \<open>
  \<^verbatim>\<open>Buffer.prototype.toString('utf-8')\<close>: the bytes read as UTF-8. A well-formed sequence is
  kept; every maximal ill-formed part becomes U+FFFD, whose own encoding is the three bytes
  of \<open>replacement\<close>. The ranges of the second byte depend on the first (no overlong forms, no
  surrogates, nothing above U+10FFFF).
\<close>

definition replacement :: string where
  "replacement = [CHR 0xEF, CHR 0xBF, CHR 0xBD]"

definition in_range :: "nat \<Rightarrow> nat \<Rightarrow> char \<Rightarrow> bool" where
  "in_range lo hi c = (lo \<le> of_char c \<and> of_char c \<le> hi)"

definition second_lo :: "char \<Rightarrow> nat" where
  "second_lo b0 = (if b0 = CHR 0xE0 then 0xA0 else if b0 = CHR 0xF0 then 0x90 else 0x80)"

definition second_hi :: "char \<Rightarrow> nat" where
  "second_hi b0 = (if b0 = CHR 0xED then 0x9F else if b0 = CHR 0xF4 then 0x8F else 0xBF)"

fun utf8_toString :: "string \<Rightarrow> string" where
  "utf8_toString [] = []"
| "utf8_toString (b0 # bs) =
     (if in_range 0x00 0x7F b0 then b0 # utf8_toString bs
      else if in_range 0xC2 0xDF b0 then
        (case bs of
           [] \<Rightarrow> replacement
         | b1 # bs1 \<Rightarrow>
             if in_range 0x80 0xBF b1 then b0 # b1 # utf8_toString bs1
             else replacement @ utf8_toString bs)
      else if in_range 0xE0 0xEF b0 then
        (case bs of
           [] \<Rightarrow> replacement
         | b1 # bs1 \<Rightarrow>
             if \<not> in_range (second_lo b0) (second_hi b0) b1 then replacement @ utf8_toString bs
             else (case bs1 of
                [] \<Rightarrow> replacement
              | b2 # bs2 \<Rightarrow>
                  if in_range 0x80 0xBF b2 then b0 # b1 # b2 # utf8_toString bs2
                  else replacement @ utf8_toString bs1))
      else if in_range 0xF0 0xF4 b0 then
        (case bs of
           [] \<Rightarrow> replacement
         | b1 # bs1 \<Rightarrow>
             if \<not> in_range (second_lo b0) (second_hi b0) b1 then replacement @ utf8_toString bs
             else (case bs1 of
                [] \<Rightarrow> replacement
              | b2 # bs2 \<Rightarrow>
                  if \<not> in_range 0x80 0xBF b2 then replacement @ utf8_toString bs1
                  else (case bs2 of
                     [] \<Rightarrow> replacement
                   | b3 # bs3 \<Rightarrow>
                       if in_range 0x80 0xBF b3 then b0 # b1 # b2 # b3 # utf8_toString bs3
                       else replacement @ utf8_toString bs2)))
      else replacement @ utf8_toString bs)"

text \<open>
  Text, as opposed to arbitrary bytes: the well-formed UTF-8 byte sequences (table 3-7 of
  the Unicode standard).
\<close>

fun well_formed_utf8 :: "string \<Rightarrow> bool" where
  "well_formed_utf8 [] = True"
| "well_formed_utf8 (b0 # bs) =
     (if in_range 0x00 0x7F b0 then well_formed_utf8 bs
      else if in_range 0xC2 0xDF b0 then
        (case bs of b1 # r \<Rightarrow> in_range 0x80 0xBF b1 \<and> well_formed_utf8 r | _ \<Rightarrow> False)
      else if in_range 0xE0 0xEF b0 then
        (case bs of
           b1 # b2 # r \<Rightarrow>
             in_range (second_lo b0) (second_hi b0) b1 \<and> in_range 0x80 0xBF b2 \<and>
             well_formed_utf8 r
         | _ \<Rightarrow> False)
      else if in_range 0xF0 0xF4 b0 then
        (case bs of
           b1 # b2 # b3 # r \<Rightarrow>
             in_range (second_lo b0) (second_hi b0) b1 \<and> in_range 0x80 0xBF b2 \<and>
             in_range 0x80 0xBF b3 \<and> well_formed_utf8 r
         | _ \<Rightarrow> False)
      else False)"

text \<open>
  \<^verbatim>\<open>encodeURIComponent\<close>: every byte of the UTF-8 encoding outside the unreserved set becomes
  \<^verbatim>\<open>%XX\<close>.
\<close>

definition unreserved :: "char \<Rightarrow> bool" where
  "unreserved c =
     (in_range 65 90 c \<or> in_range 97 122 c \<or> in_range 48 57 c \<or> c \<in> set ''-_.!~*'()'')"

definition hex_digit :: "nat \<Rightarrow> char" where
  "hex_digit d = (if d < 10 then char_of (48 + d) else char_of (55 + d))"

definition encodeURIComponent :: "string \<Rightarrow> string" where
  "encodeURIComponent s =
     concat (map (\<lambda>c. if unreserved c then [c]
                       else [CHR ''%'', hex_digit (of_char c div 16), hex_digit (of_char c mod 16)]) s)"

section \<open>The process, a request, the remote store\<close>

text \<open>
  What one handler invocation reads from its surroundings: the environment variable
  \<^verbatim>\<open>GITHUB_TOKEN\<close> (a string, or unset), the clock value \<^verbatim>\<open>Date.now()\<close>, and the part of
  \<^verbatim>\<open>Buffer.from\<close> that is not modelled: its result on an array or an object (their elements
  are coerced to numbers first), taken as a parameter.
\<close>

record runtime =
  env_GITHUB_TOKEN :: "string option"
  Date_now :: nat
  Buffer_from_object :: "jsval \<Rightarrow> exn + string"

text \<open>
  \<^verbatim>\<open>req.body\<close>, \<^verbatim>\<open>req.query\<close> and \<^verbatim>\<open>req.params[0]\<close>. The body parsers installed in lines 9
  and 10 run before every route and leave \<^verbatim>\<open>req.body\<close> an object (empty when the request
  has no body), and Express always provides \<^verbatim>\<open>req.query\<close>; so the guards
  \<^verbatim>\<open>req.body &&\<close> and \<^verbatim>\<open>req.query &&\<close> of \<^verbatim>\<open>getAuthToken\<close> always pass.
\<close>

record request =
  req_body :: "(string \<times> jsval) list"
  req_query :: "(string \<times> jsval) list"
  req_params0 :: string

text \<open>One \<^verbatim>\<open>fetch\<close>: the verb, the URL, the headers and the JSON of the body.\<close>

record call =
  c_verb :: string
  c_url :: string
  c_headers :: "(string \<times> string) list"
  c_body :: "jsval option"

text \<open>
  What \<^verbatim>\<open>fetch\<close> resolves to: the status, and what \<^verbatim>\<open>response.text()\<close> and
  \<^verbatim>\<open>response.json()\<close> give (each may reject: \<^verbatim>\<open>json()\<close> does on a body that is not JSON).
  \<open>Rejected\<close> is a \<^verbatim>\<open>fetch\<close> that rejects, with the description of the failure.
\<close>

record response =
  r_status :: nat
  r_text :: "exn + string"
  r_json :: "exn + jsval"

datatype outcome = Rejected string | Responded response

text \<open>
  The remote store is any function from the calls already made in this invocation and the
  call being made to its outcome: the handlers are sequential, so this covers every remote,
  stateful or not.
\<close>

type_synonym remote = "call list \<Rightarrow> call \<Rightarrow> outcome"

datatype body = Json jsval | Send string | SendBuffer string

text \<open>
  The answer: the status (200 unless \<^verbatim>\<open>res.status\<close> is called), the headers the source
  sets with \<^verbatim>\<open>res.setHeader\<close> (those Express adds by itself are not modelled), and the body.
\<close>

record http_response =
  res_status :: nat
  res_headers :: "(string \<times> string) list"
  res_body :: body

text \<open>
  An \<^verbatim>\<open>async\<close> body: it runs on the list of calls made so far, may throw, and returns the
  list extended by the calls it made.
\<close>

type_synonym 'a io = "call list \<Rightarrow> (exn + 'a) \<times> call list"

definition io_return :: "'a \<Rightarrow> 'a io" where
  "io_return x tr = (Inr x, tr)"

definition io_throw :: "exn \<Rightarrow> 'a io" where
  "io_throw e tr = (Inl e, tr)"

definition from_sum :: "exn + 'a \<Rightarrow> 'a io" where
  "from_sum r tr = (r, tr)"

definition io_bind :: "'a io \<Rightarrow> ('a \<Rightarrow> 'b io) \<Rightarrow> 'b io" where
  "io_bind m f tr = (case m tr of (Inl e, tr') \<Rightarrow> (Inl e, tr') | (Inr x, tr') \<Rightarrow> f x tr')"

definition fetch :: "remote \<Rightarrow> call \<Rightarrow> response io" where
  "fetch R c tr =
     (case R tr c of
        Rejected m \<Rightarrow> (Inl (Error m), tr @ [c])
      | Responded r \<Rightarrow> (Inr r, tr @ [c]))"

text \<open>\<^verbatim>\<open>try { ... } catch (error) { ... }\<close> around a whole handler, started with no call made.\<close>

definition try_catch :: "http_response io \<Rightarrow> (exn \<Rightarrow> http_response) \<Rightarrow> http_response \<times> call list" where
  "try_catch m handler = (case m [] of (Inl e, tr) \<Rightarrow> (handler e, tr) | (Inr r, tr) \<Rightarrow> (r, tr))"

definition ok :: "response \<Rightarrow> bool" where
  "ok r = (200 \<le> r_status r \<and> r_status r \<le> 299)"

definition invalid_arg :: "jsval \<Rightarrow> exn" where
  "invalid_arg v =
     Error (''The first argument must be of type string or an instance of Buffer, ArrayBuffer, or Array or an Array-like Object. Received '' @
       (case v of
          JUndefined \<Rightarrow> ''undefined''
        | JNull \<Rightarrow> ''null''
        | JBool b \<Rightarrow> ''type boolean ('' @ to_string v @ '')''
        | JNum n \<Rightarrow> ''type number ('' @ to_string v @ '')''
        | _ \<Rightarrow> []))"

text \<open>\<^verbatim>\<open>Buffer.from(v)\<close>: the UTF-8 bytes of a string; a \<^verbatim>\<open>TypeError\<close> on any other primitive.\<close>

definition Buffer_from :: "runtime \<Rightarrow> jsval \<Rightarrow> exn + string" where
  "Buffer_from rt v =
     (case v of
        JStr s \<Rightarrow> Inr s
      | JArr xs \<Rightarrow> Buffer_from_object rt v
      | JObj kvs \<Rightarrow> Buffer_from_object rt v
      | _ \<Rightarrow> Inl (invalid_arg v))"

text \<open>\<^verbatim>\<open>Buffer.from(v, 'base64')\<close>; the encoding only matters for a string.\<close>

definition Buffer_from_base64 :: "runtime \<Rightarrow> jsval \<Rightarrow> exn + string" where
  "Buffer_from_base64 rt v =
     (case v of
        JStr s \<Rightarrow> Inr (base64_decode s)
      | JArr xs \<Rightarrow> Buffer_from_object rt v
      | JObj kvs \<Rightarrow> Buffer_from_object rt v
      | _ \<Rightarrow> Inl (invalid_arg v))"

section \<open>Credential resolution\<close>

text \<open>The three places a credential can come from (lines 23, 25 and 27).\<close>

definition env_credential :: "runtime \<Rightarrow> jsval" where
  "env_credential rt = (case env_GITHUB_TOKEN rt of None \<Rightarrow> JUndefined | Some t \<Rightarrow> JStr t)"

definition body_credential :: "request \<Rightarrow> jsval" where
  "body_credential req = field (req_body req) ''token''"

definition query_credential :: "request \<Rightarrow> jsval" where
  "query_credential req = field (req_query req) ''token''"

definition getAuthToken :: "runtime \<Rightarrow> request \<Rightarrow> jsval" where
  "getAuthToken rt req =
     (if truthy (env_credential rt) then env_credential rt
      else if truthy (body_credential req) then body_credential req
      else if truthy (query_credential req) then query_credential req
      else JNull)"

text \<open>
  The precedence in the words of the specification: the candidates in their order, and the
  first present one, or none.
\<close>

definition candidates :: "runtime \<Rightarrow> request \<Rightarrow> jsval list" where
  "candidates rt req = [env_credential rt, body_credential req, query_credential req]"

definition resolve :: "runtime \<Rightarrow> request \<Rightarrow> jsval option" where
  "resolve rt req = find truthy (candidates rt req)"

section \<open>The handlers\<close>

definition api :: string where
  "api = ''https://api.github.com/repos/compusophy/world-world''"

definition contents_url :: "string \<Rightarrow> string" where
  "contents_url p = api @ ''/contents/'' @ p"

definition auth_headers :: "jsval \<Rightarrow> (string \<times> string) list" where
  "auth_headers token =
     [(''Authorization'', ''token '' @ to_string token),
      (''Accept'', ''application/vnd.github.v3+json'')]"

definition api_get :: "jsval \<Rightarrow> string \<Rightarrow> call" where
  "api_get token url = \<lparr>c_verb = ''GET'', c_url = url, c_headers = auth_headers token, c_body = None\<rparr>"

definition api_send :: "string \<Rightarrow> jsval \<Rightarrow> string \<Rightarrow> (string \<times> jsval) list \<Rightarrow> call" where
  "api_send verb token url props =
     \<lparr>c_verb = verb, c_url = url,
      c_headers = auth_headers token @ [(''Content-Type'', ''application/json'')],
      c_body = Some (JSON_stringify props)\<rparr>"

definition res_json :: "(string \<times> jsval) list \<Rightarrow> http_response" where
  "res_json props = \<lparr>res_status = 200, res_headers = [], res_body = Json (JSON_stringify props)\<rparr>"

definition res_send :: "nat \<Rightarrow> string \<Rightarrow> http_response" where
  "res_send code s = \<lparr>res_status = code, res_headers = [], res_body = Send s\<rparr>"

text \<open>\<^verbatim>\<open>catch (error) { res.json({ error: error.message }); }\<close>\<close>

definition json_error :: "exn \<Rightarrow> http_response" where
  "json_error e = res_json [(''error'', JStr (message e))]"

definition not_authenticated :: http_response where
  "not_authenticated = res_json [(''error'', JStr ''GitHub not authenticated'')]"

text \<open>\<^verbatim>\<open>encodeURIComponent(filePath || 'index.html')\<close>\<close>

definition target_path :: "jsval \<Rightarrow> string" where
  "target_path filePath = encodeURIComponent (to_string (js_or filePath (JStr ''index.html'')))"

text \<open>\<^verbatim>\<open>`web-editor-${Date.now()}`\<close>\<close>

definition branchName :: "runtime \<Rightarrow> string" where
  "branchName rt = ''web-editor-'' @ show_nat (Date_now rt)"

text \<open>
  Each handler returns its answer and the calls it made, in order. \<^verbatim>\<open>console.error\<close> is
  not modelled.
\<close>

definition auth :: "runtime \<Rightarrow> request \<Rightarrow> http_response \<times> call list" where
  "auth rt req =
     (if truthy (getAuthToken rt req)
      then (res_json [(''success'', JStr (''Connected via '' @
              (if truthy (env_credential rt) then ''Environment Variable'' else ''Session'')))], [])
      else (res_json [(''error'', JStr ''No token found. Set GITHUB_TOKEN in Vercel.'')], []))"

definition test_token :: "runtime \<Rightarrow> remote \<Rightarrow> request \<Rightarrow> http_response \<times> call list" where
  "test_token rt R req = try_catch
     (let token = getAuthToken rt req in
      if \<not> truthy token then io_return (res_json [(''error'', JStr ''No token set.'')])
      else
        io_bind (fetch R (api_get token ''https://api.github.com/user'')) (\<lambda>testResponse.
        if \<not> ok testResponse then
          io_bind (from_sum (r_text testResponse)) (\<lambda>errorText.
          io_return (res_json [(''error'', JStr (''Token test failed: '' @
             show_nat (r_status testResponse) @ '' - '' @ errorText))]))
        else
          io_bind (from_sum (r_json testResponse)) (\<lambda>user.
          io_bind (from_sum (get_prop user ''login'')) (\<lambda>login.
          io_return (res_json [(''success'', JStr (''Logged in as: '' @ to_string login))])))))
     json_error"

definition og_image :: "runtime \<Rightarrow> remote \<Rightarrow> request \<Rightarrow> http_response \<times> call list" where
  "og_image rt R req = try_catch
     (let token = getAuthToken rt req in
      if \<not> truthy token then io_return (res_send 401 ''Missing GITHUB_TOKEN env var'')
      else
        let filename = js_or (field (req_query req) ''name'') (JStr ''og-image.png'');
            filePath = ''images/'' @ to_string filename in
        io_bind (fetch R (api_get token (contents_url filePath))) (\<lambda>response.
        if \<not> ok response then io_return (res_send 404 ''Image not found'')
        else
          io_bind (from_sum (r_json response)) (\<lambda>data.
          io_bind (from_sum (get_prop data ''content'')) (\<lambda>content.
          io_bind (from_sum (Buffer_from_base64 rt content)) (\<lambda>imgBuffer.
          io_return
            \<lparr>res_status = 200,
             res_headers =
               [(''Content-Type'', ''image/png''),
                (''Cache-Control'', ''no-cache, no-store, must-revalidate''),
                (''Pragma'', ''no-cache''),
                (''Expires'', ''0'')],
             res_body = SendBuffer imgBuffer\<rparr>)))))
     (\<lambda>error. res_send 500 (message error))"

definition upload_image :: "runtime \<Rightarrow> remote \<Rightarrow> request \<Rightarrow> http_response \<times> call list" where
  "upload_image rt R req = try_catch
     (let content = field (req_body req) ''content''; filename = field (req_body req) ''filename'';
          token = getAuthToken rt req in
      if \<not> truthy token then io_return not_authenticated
      else
        let filePath = ''images/'' @ to_string filename in
        io_bind (fetch R (api_get token (contents_url filePath))) (\<lambda>getResponse.
        io_bind (if ok getResponse
                 then io_bind (from_sum (r_json getResponse)) (\<lambda>currentFile.
                      from_sum (get_prop currentFile ''sha''))
                 else io_return JUndefined) (\<lambda>sha.
        io_bind (fetch R (api_send ''PUT'' token (contents_url filePath)
                   [(''message'', JStr (''Upload image '' @ to_string filename)),
                    (''content'', content),
                    (''sha'', js_or sha JUndefined)])) (\<lambda>updateResponse.
        if \<not> ok updateResponse then
          io_bind (from_sum (r_text updateResponse)) (\<lambda>errorText.
          io_throw (Error (''GitHub upload failed: '' @ errorText)))
        else
          io_return (res_json
            [(''success'', JStr ''Image uploaded!''),
             (''url'', JStr (''https://world-world.vercel.app/og-image.png?name='' @
                 to_string filename @ ''&t='' @ show_nat (Date_now rt)))])))))
     json_error"

definition commit :: "runtime \<Rightarrow> remote \<Rightarrow> request \<Rightarrow> http_response \<times> call list" where
  "commit rt R req = try_catch
     (let content = field (req_body req) ''content''; filePath = field (req_body req) ''filePath'';
          sha = field (req_body req) ''sha''; token = getAuthToken rt req in
      if \<not> truthy token then io_return not_authenticated
      else
        io_bind (if \<not> truthy sha
                 then io_bind (fetch R (api_get token (contents_url (target_path filePath))))
                        (\<lambda>getResponse.
                      if ok getResponse
                      then io_bind (from_sum (r_json getResponse)) (\<lambda>f.
                           from_sum (get_prop f ''sha''))
                      else io_return sha)
                 else io_return sha) (\<lambda>currentSha.
        io_bind (from_sum (Buffer_from rt content)) (\<lambda>buffer.
        io_bind (fetch R (api_send ''PUT'' token (contents_url (target_path filePath))
                   [(''message'', JStr (''Update '' @ to_string filePath @ '' from web editor'')),
                    (''content'', JStr (base64_encode buffer)),
                    (''sha'', currentSha)])) (\<lambda>updateResponse.
        if \<not> ok updateResponse then
          io_bind (from_sum (r_text updateResponse)) (\<lambda>errorText. io_throw (Error errorText))
        else io_return (res_json [(''success'', JStr ''Committed successfully!'')])))))
     json_error"

definition create_pr :: "runtime \<Rightarrow> remote \<Rightarrow> request \<Rightarrow> http_response \<times> call list" where
  "create_pr rt R req = try_catch
     (let title = field (req_body req) ''title''; body = field (req_body req) ''body'';
          content = field (req_body req) ''content''; filePath = field (req_body req) ''filePath'';
          token = getAuthToken rt req in
      if \<not> truthy token then io_return not_authenticated
      else
        io_bind (fetch R (api_get token (api @ ''/git/ref/heads/main''))) (\<lambda>mainBranchResponse.
        io_bind (from_sum (r_json mainBranchResponse)) (\<lambda>mainBranch.
        io_bind (from_sum (get_prop mainBranch ''object'')) (\<lambda>object.
        io_bind (from_sum (get_prop object ''sha'')) (\<lambda>baseSha.
        io_bind (fetch R (api_send ''POST'' token (api @ ''/git/refs'')
                   [(''ref'', JStr (''refs/heads/'' @ branchName rt)), (''sha'', baseSha)])) (\<lambda>_.
        io_bind (fetch R (api_get token (contents_url (target_path filePath)))) (\<lambda>getFile.
        io_bind (if ok getFile then from_sum (r_json getFile) else io_return (JObj [])) (\<lambda>currentFile.
        io_bind (from_sum (Buffer_from rt content)) (\<lambda>buffer.
        io_bind (from_sum (get_prop currentFile ''sha'')) (\<lambda>fileSha.
        io_bind (fetch R (api_send ''PUT'' token (contents_url (target_path filePath))
                   [(''message'', JStr ''Update from web editor''),
                    (''content'', JStr (base64_encode buffer)),
                    (''sha'', fileSha),
                    (''branch'', JStr (branchName rt))])) (\<lambda>_.
        io_bind (fetch R (api_send ''POST'' token (api @ ''/pulls'')
                   [(''title'', js_or title (JStr ''Update'')),
                    (''body'', js_or body (JStr [])),
                    (''head'', JStr (branchName rt)),
                    (''base'', JStr ''main'')])) (\<lambda>prResponse.
        io_bind (from_sum (r_json prResponse)) (\<lambda>pr.
        io_bind (from_sum (get_prop pr ''html_url'')) (\<lambda>html_url.
        io_return (res_json [(''success'', JStr (''PR created: '' @ to_string html_url))])))))))))))))))
     json_error"

definition merge_pr :: "runtime \<Rightarrow> remote \<Rightarrow> request \<Rightarrow> http_response \<times> call list" where
  "merge_pr rt R req = try_catch
     (let prNumber = field (req_body req) ''prNumber''; token = getAuthToken rt req in
      if \<not> truthy token then io_return not_authenticated
      else
        io_bind (fetch R (api_send ''PUT'' token
                   (api @ ''/pulls/'' @ to_string prNumber @ ''/merge'')
                   [(''commit_title'', JStr (''Merge PR #'' @ to_string prNumber)),
                    (''merge_method'', JStr ''merge'')])) (\<lambda>mergeResponse.
        if \<not> ok mergeResponse then
          io_bind (from_sum (r_text mergeResponse)) (\<lambda>errorText. io_throw (Error errorText))
        else io_return (res_json [(''success'', JStr (''PR #'' @ to_string prNumber @ '' merged!''))])))
     json_error"

text \<open>The listings. \<^verbatim>\<open>forEach\<close> runs its callback on the elements of an array, in order.\<close>

definition sum_bind :: "exn + 'a \<Rightarrow> ('a \<Rightarrow> exn + 'b) \<Rightarrow> exn + 'b" where
  "sum_bind r f = (case r of Inl e \<Rightarrow> Inl e | Inr x \<Rightarrow> f x)"

fun each :: "(jsval \<Rightarrow> string \<Rightarrow> exn + string) \<Rightarrow> jsval list \<Rightarrow> string \<Rightarrow> exn + string" where
  "each f [] html = Inr html"
| "each f (x # xs) html = sum_bind (f x html) (each f xs)"

definition forEach :: "string \<Rightarrow> jsval \<Rightarrow> (jsval \<Rightarrow> string \<Rightarrow> exn + string) \<Rightarrow> string \<Rightarrow> exn + string" where
  "forEach name v f html =
     (case v of
        JArr xs \<Rightarrow> each f xs html
      | JUndefined \<Rightarrow> Inl (cannot_read ''undefined'' ''forEach'')
      | JNull \<Rightarrow> Inl (cannot_read ''null'' ''forEach'')
      | _ \<Rightarrow> Inl (Error (name @ ''.forEach is not a function'')))"

text \<open>\<^verbatim>\<open>prs.length === 0\<close>\<close>

definition length_is_zero :: "jsval \<Rightarrow> exn + bool" where
  "length_is_zero v =
     (case v of
        JUndefined \<Rightarrow> Inl (cannot_read ''undefined'' ''length'')
      | JNull \<Rightarrow> Inl (cannot_read ''null'' ''length'')
      | JArr xs \<Rightarrow> Inr (xs = [])
      | JStr s \<Rightarrow> Inr (s = [])
      | JObj kvs \<Rightarrow> Inr (field kvs ''length'' = JNum 0)
      | _ \<Rightarrow> Inr False)"

text \<open>The two icons of line 301, as the bytes the source file holds.\<close>

definition icon_dir :: string where
  "icon_dir = [CHR 0xEF, CHR 0xA3, CHR 0xBF, CHR 0xC3, CHR 0xBC, CHR 0xC3, CHR 0xAC, CHR 0xC3, CHR 0x85]"

definition icon_file :: string where
  "icon_file = [CHR 0xEF, CHR 0xA3, CHR 0xBF, CHR 0xC3, CHR 0xBC, CHR 0xC3, CHR 0xAC, CHR 0xC3, CHR 0x91]"

definition render_file :: "jsval \<Rightarrow> string \<Rightarrow> exn + string" where
  "render_file file html =
     sum_bind (get_prop file ''type'') (\<lambda>type.
     sum_bind (get_prop file ''path'') (\<lambda>path.
     sum_bind (get_prop file ''name'') (\<lambda>name.
     let icon = (if type = JStr ''dir'' then icon_dir else icon_file) in
     if type = JStr ''file''
     then Inr (html @ ''<div style=\"margin:5px;\"><a href=\"#\" onclick=\"loadFile('' @ [CHR 0x27] @
            to_string path @ [CHR 0x27] @ ''); return false;\">'' @ icon @ '' '' @ to_string name @
            ''</a></div>'')
     else Inr (html @ ''<div style=\"margin:5px;\">'' @ icon @ '' '' @ to_string name @ ''/</div>''))))"

definition render_pr :: "jsval \<Rightarrow> string \<Rightarrow> exn + string" where
  "render_pr pr html =
     sum_bind (get_prop pr ''number'') (\<lambda>number.
     sum_bind (get_prop pr ''title'') (\<lambda>title.
     Inr (html @
       ''\<newline>                <div style=\"border:1px solid #ccc; margin:10px; padding:10px;\">'' @
       ''\<newline>                    <h4>PR #'' @ to_string number @ '': '' @ to_string title @ ''</h4>'' @
       ''\<newline>                    <form hx-post=\"/merge-pr\" hx-target=\"#status\" hx-swap=\"innerHTML\">'' @
       ''\<newline>                        <input type=\"hidden\" name=\"prNumber\" value=\"'' @ to_string number @ ''\">'' @
       ''\<newline>                        <button type=\"submit\">merge pr</button>'' @
       ''\<newline>                    </form>'' @
       ''\<newline>                </div>'')))"

definition html_error :: "exn \<Rightarrow> http_response" where
  "html_error e = res_send 200 (''<p>Error: '' @ message e @ ''</p>'')"

definition list_files :: "runtime \<Rightarrow> remote \<Rightarrow> request \<Rightarrow> http_response \<times> call list" where
  "list_files rt R req = try_catch
     (let token = getAuthToken rt req in
      if \<not> truthy token then io_return (res_send 200 ''<p>Set GITHUB_TOKEN env var</p>'')
      else
        io_bind (fetch R (api_get token (api @ ''/contents''))) (\<lambda>filesResponse.
        if \<not> ok filesResponse
        then io_return (res_send 200 (''<p>Error: '' @ show_nat (r_status filesResponse) @ ''</p>''))
        else
          io_bind (from_sum (r_json filesResponse)) (\<lambda>files.
          io_bind (from_sum (forEach ''files'' files render_file ''<h3>Repository Files</h3>'')) (\<lambda>html.
          io_return (res_send 200 html)))))
     html_error"

definition load_file :: "runtime \<Rightarrow> remote \<Rightarrow> request \<Rightarrow> http_response \<times> call list" where
  "load_file rt R req = try_catch
     (let filePath = req_params0 req; token = getAuthToken rt req in
      if \<not> truthy token then io_return not_authenticated
      else
        io_bind (fetch R (api_get token (contents_url (encodeURIComponent filePath)))) (\<lambda>fileResponse.
        if \<not> ok fileResponse then io_return (res_json [(''error'', JStr ''File not found'')])
        else
          io_bind (from_sum (r_json fileResponse)) (\<lambda>fileData.
          io_bind (from_sum (get_prop fileData ''content'')) (\<lambda>content.
          io_bind (from_sum (Buffer_from_base64 rt content)) (\<lambda>buffer.
          io_bind (from_sum (get_prop fileData ''sha'')) (\<lambda>sha.
          io_return (res_json
            [(''content'', JStr (utf8_toString buffer)),
             (''path'', JStr filePath),
             (''sha'', sha)])))))))
     json_error"

definition list_prs :: "runtime \<Rightarrow> remote \<Rightarrow> request \<Rightarrow> http_response \<times> call list" where
  "list_prs rt R req = try_catch
     (let token = getAuthToken rt req in
      if \<not> truthy token then io_return (res_send 200 ''<p>Set GITHUB_TOKEN env var</p>'')
      else
        io_bind (fetch R (api_get token (api @ ''/pulls?state=open''))) (\<lambda>prsResponse.
        io_bind (from_sum (r_json prsResponse)) (\<lambda>prs.
        io_bind (from_sum (length_is_zero prs)) (\<lambda>none.
        if none then io_return (res_send 200 ''<p>No open PRs</p>'')
        else
          io_bind (from_sum (forEach ''prs'' prs render_pr ''<h3>Open PRs</h3>'')) (\<lambda>html.
          io_return (res_send 200 html))))))
     html_error"

text \<open>
  The operations of the gateway: every route whose handler resolves a credential. (The
  routes \<^verbatim>\<open>/\<close> and \<^verbatim>\<open>/favicon.ico\<close> serve static content and resolve none.)
\<close>

datatype route =
    POST_auth | POST_test_token | GET_og_image | POST_upload_image | POST_commit
  | POST_create_pr | POST_merge_pr | GET_files | GET_file | GET_prs

fun handle :: "route \<Rightarrow> runtime \<Rightarrow> remote \<Rightarrow> request \<Rightarrow> http_response \<times> call list" where
  "handle POST_auth rt R req = auth rt req"
| "handle POST_test_token rt R req = test_token rt R req"
| "handle GET_og_image rt R req = og_image rt R req"
| "handle POST_upload_image rt R req = upload_image rt R req"
| "handle POST_commit rt R req = commit rt R req"
| "handle POST_create_pr rt R req = create_pr rt R req"
| "handle POST_merge_pr rt R req = merge_pr rt R req"
| "handle GET_files rt R req = list_files rt R req"
| "handle GET_file rt R req = load_file rt R req"
| "handle GET_prs rt R req = list_prs rt R req"

section \<open>Notions the properties are stated with\<close>

text \<open>What each operation answers when it finds no credential, as the source writes it.\<close>

fun unauthenticated :: "route \<Rightarrow> http_response" where
  "unauthenticated POST_auth = res_json [(''error'', JStr ''No token found. Set GITHUB_TOKEN in Vercel.'')]"
| "unauthenticated POST_test_token = res_json [(''error'', JStr ''No token set.'')]"
| "unauthenticated GET_og_image = res_send 401 ''Missing GITHUB_TOKEN env var''"
| "unauthenticated GET_files = res_send 200 ''<p>Set GITHUB_TOKEN env var</p>''"
| "unauthenticated GET_prs = res_send 200 ''<p>Set GITHUB_TOKEN env var</p>''"
| "unauthenticated _ = not_authenticated"

text \<open>The calls of the commit operation, and its success answer.\<close>

definition read_call :: "runtime \<Rightarrow> request \<Rightarrow> call" where
  "read_call rt req =
     api_get (getAuthToken rt req) (contents_url (target_path (field (req_body req) ''filePath'')))"

definition write_call :: "runtime \<Rightarrow> request \<Rightarrow> string \<Rightarrow> jsval \<Rightarrow> call" where
  "write_call rt req buffer version =
     api_send ''PUT'' (getAuthToken rt req)
       (contents_url (target_path (field (req_body req) ''filePath'')))
       [(''message'', JStr (''Update '' @ to_string (field (req_body req) ''filePath'') @ '' from web editor'')),
        (''content'', JStr (base64_encode buffer)),
        (''sha'', version)]"

definition committed :: http_response where
  "committed = res_json [(''success'', JStr ''Committed successfully!'')]"

text \<open>The one call of the image proxy and the headers of its image answer.\<close>

definition image_call :: "runtime \<Rightarrow> request \<Rightarrow> call" where
  "image_call rt req =
     api_get (getAuthToken rt req)
       (contents_url (''images/'' @ to_string (js_or (field (req_query req) ''name'') (JStr ''og-image.png''))))"

definition image_headers :: "(string \<times> string) list" where
  "image_headers =
     [(''Content-Type'', ''image/png''),
      (''Cache-Control'', ''no-cache, no-store, must-revalidate''),
      (''Pragma'', ''no-cache''),
      (''Expires'', ''0'')]"

text \<open>The first two calls of the pull-request operation.\<close>

definition main_call :: "runtime \<Rightarrow> request \<Rightarrow> call" where
  "main_call rt req = api_get (getAuthToken rt req) (api @ ''/git/ref/heads/main'')"

definition branch_call :: "runtime \<Rightarrow> request \<Rightarrow> jsval \<Rightarrow> call" where
  "branch_call rt req base =
     api_send ''POST'' (getAuthToken rt req) (api @ ''/git/refs'')
       [(''ref'', JStr (''refs/heads/'' @ branchName rt)), (''sha'', base)]"

text \<open>The calls of the merge and upload operations and of the file reader.\<close>

definition merge_call :: "runtime \<Rightarrow> request \<Rightarrow> call" where
  "merge_call rt req =
     api_send ''PUT'' (getAuthToken rt req)
       (api @ ''/pulls/'' @ to_string (field (req_body req) ''prNumber'') @ ''/merge'')
       [(''commit_title'', JStr (''Merge PR #'' @ to_string (field (req_body req) ''prNumber''))),
        (''merge_method'', JStr ''merge'')]"

definition upload_read :: "runtime \<Rightarrow> request \<Rightarrow> call" where
  "upload_read rt req =
     api_get (getAuthToken rt req)
       (contents_url (''images/'' @ to_string (field (req_body req) ''filename'')))"

definition upload_write :: "runtime \<Rightarrow> request \<Rightarrow> jsval \<Rightarrow> call" where
  "upload_write rt req version =
     api_send ''PUT'' (getAuthToken rt req)
       (contents_url (''images/'' @ to_string (field (req_body req) ''filename'')))
       [(''message'', JStr (''Upload image '' @ to_string (field (req_body req) ''filename''))),
        (''content'', field (req_body req) ''content''),
        (''sha'', js_or version JUndefined)]"

definition file_call :: "runtime \<Rightarrow> request \<Rightarrow> call" where
  "file_call rt req =
     api_get (getAuthToken rt req) (contents_url (encodeURIComponent (req_params0 req)))"

text \<open>A property of the JSON body a call carries.\<close>

definition body_field :: "call \<Rightarrow> string \<Rightarrow> jsval" where
  "body_field c k = (case c_body c of Some (JObj kvs) \<Rightarrow> field kvs k | _ \<Rightarrow> JUndefined)"

text \<open>A call that reads or writes a file: its URL is under the contents API.\<close>

definition contents_call :: "call \<Rightarrow> bool" where
  "contents_call c = (take (length (contents_url [])) (c_url c) = contents_url [])"

text \<open>The URLs of the pull-request operation.\<close>

definition pr_urls :: "request \<Rightarrow> string set" where
  "pr_urls req =
     {api @ ''/git/ref/heads/main'', api @ ''/git/refs'', api @ ''/pulls'',
      contents_url (target_path (field (req_body req) ''filePath''))}"

text \<open>
  The uniform envelope of the mutating endpoints: status 200 and a JSON object of strings
  with the single property \<^verbatim>\<open>error\<close>, or \<^verbatim>\<open>success\<close>, or \<^verbatim>\<open>success\<close> and \<^verbatim>\<open>url\<close>.
\<close>

definition is_string :: "jsval \<Rightarrow> bool" where
  "is_string v = (case v of JStr s \<Rightarrow> True | _ \<Rightarrow> False)"

definition is_envelope :: "http_response \<Rightarrow> bool" where
  "is_envelope r =
     (res_status r = 200 \<and>
      (case res_body r of
         Json v \<Rightarrow>
           (case v of
              JObj kvs \<Rightarrow>
                list_all is_string (map snd kvs) \<and>
                (map fst kvs = [''error''] \<or> map fst kvs = [''success'']
                 \<or> map fst kvs = [''success'', ''url''])
            | _ \<Rightarrow> False)
       | _ \<Rightarrow> False))"

text \<open>
  The outcomes of an invocation: each of its calls with what the remote gave for it, after
  the calls made before it.
\<close>

fun outcomes :: "remote \<Rightarrow> call list \<Rightarrow> call list \<Rightarrow> (call \<times> outcome) list" where
  "outcomes R tr [] = []"
| "outcomes R tr (c # cs) = (c, R tr c) # outcomes R (tr @ [c]) cs"

text \<open>An answer that reports success: a JSON object with the property \<^verbatim>\<open>success\<close>.\<close>

definition succeeded :: "http_response \<Rightarrow> bool" where
  "succeeded r =
     (case res_body r of Json (JObj kvs) \<Rightarrow> ''success'' \<in> set (map fst kvs) | _ \<Rightarrow> False)"

text \<open>The last call of an invocation was a \<^verbatim>\<open>PUT\<close> and the remote accepted it.\<close>

definition accepted :: "remote \<Rightarrow> call list \<Rightarrow> bool" where
  "accepted R calls =
     (case rev (outcomes R [] calls) of
        (c, Responded w) # before \<Rightarrow> c_verb c = ''PUT'' \<and> ok w
      | _ \<Rightarrow> False)"

text \<open>What a list of calls wrote under a URL: the \<^verbatim>\<open>content\<close> of its last \<^verbatim>\<open>PUT\<close> to it.\<close>

definition written :: "call list \<Rightarrow> string \<Rightarrow> jsval option" where
  "written calls url =
     map_option (\<lambda>c. body_field c ''content'')
       (find (\<lambda>c. c_verb c = ''PUT'' \<and> c_url c = url) (rev calls))"

section \<open>Proof rules for handler bodies\<close>

text \<open>
  A Hoare triple for an \<^verbatim>\<open>async\<close> body: started on a list of calls that satisfies \<open>P\<close> and
  whose calls all satisfy \<open>C\<close>, it only adds calls that satisfy \<open>C\<close>, and a value it returns
  satisfies \<open>Q\<close>.
\<close>

definition io_spec :: "(call list \<Rightarrow> bool) \<Rightarrow> ('a \<Rightarrow> bool) \<Rightarrow> (call \<Rightarrow> bool) \<Rightarrow> 'a io \<Rightarrow> bool" where
  "io_spec P Q C m =
     (\<forall>tr. P tr \<and> list_all C tr \<longrightarrow>
        list_all C (snd (m tr)) \<and> (case fst (m tr) of Inl e \<Rightarrow> True | Inr x \<Rightarrow> Q x))"

text \<open>An \<^verbatim>\<open>async\<close> body never takes back a call: the list it returns extends the one it got.\<close>

definition io_extends :: "'a io \<Rightarrow> bool" where
  "io_extends m = (\<forall>tr. \<exists>new. snd (m tr) = tr @ new)"

text \<open>
  Rejections are reported: started on calls the remote answered, a body that returns has
  only made calls the remote answered, and a body that throws has thrown the description
  of every \<^verbatim>\<open>fetch\<close> that rejected.
\<close>

definition answered :: "remote \<Rightarrow> call list \<Rightarrow> bool" where
  "answered R tr = (\<forall>c d. (c, Rejected d) \<notin> set (outcomes R [] tr))"

definition reported :: "remote \<Rightarrow> (exn + 'a) \<times> call list \<Rightarrow> bool" where
  "reported R out =
     (case fst out of
        Inr x \<Rightarrow> answered R (snd out)
      | Inl e \<Rightarrow> (\<forall>c d. (c, Rejected d) \<in> set (outcomes R [] (snd out)) \<longrightarrow> e = Error d))"

definition io_reports :: "remote \<Rightarrow> 'a io \<Rightarrow> bool" where
  "io_reports R m = (\<forall>tr. answered R tr \<longrightarrow> reported R (m tr))"

text \<open>
  Refused writes are reported: started before any \<^verbatim>\<open>PUT\<close>, a body throws \<open>g\<close> of the raw
  error body of every \<^verbatim>\<open>PUT\<close> the remote refused, and returns a success answer exactly when
  its last call was a \<^verbatim>\<open>PUT\<close> the remote accepted.
\<close>

definition write_reported ::
  "remote \<Rightarrow> (string \<Rightarrow> string) \<Rightarrow> (exn + http_response) \<times> call list \<Rightarrow> bool" where
  "write_reported R g out =
     ((\<forall>c w raw. (c, Responded w) \<in> set (outcomes R [] (snd out)) \<and> c_verb c = ''PUT''
          \<and> \<not> ok w \<and> r_text w = Inr raw \<longrightarrow> fst out = Inl (Error (g raw)))
      \<and> ((case fst out of Inr x \<Rightarrow> succeeded x | Inl e \<Rightarrow> False) \<longleftrightarrow> accepted R (snd out)))"

definition io_writes :: "remote \<Rightarrow> (string \<Rightarrow> string) \<Rightarrow> http_response io \<Rightarrow> bool" where
  "io_writes R g m =
     (\<forall>tr. list_all (\<lambda>c. c_verb c \<noteq> ''PUT'') tr \<longrightarrow> write_reported R g (m tr))"

section \<open>Concrete processes, stores and requests\<close>

text \<open>
  Processes: without the environment variable, with it, and with it one millisecond later.
  No request below sends an array or an object as content; the result of \<^verbatim>\<open>Buffer.from\<close>
  on one, which the model leaves open, is set to a rejection here.
\<close>

definition anonymous :: runtime where
  "anonymous = \<lparr>env_GITHUB_TOKEN = None, Date_now = 1700000000000,
     Buffer_from_object = (\<lambda>v. Inl (invalid_arg v))\<rparr>"

definition deployed :: runtime where
  "deployed = \<lparr>env_GITHUB_TOKEN = Some ''E'', Date_now = 1700000000000,
     Buffer_from_object = (\<lambda>v. Inl (invalid_arg v))\<rparr>"

definition later :: runtime where
  "later = \<lparr>env_GITHUB_TOKEN = Some ''E'', Date_now = 1700000000001,
     Buffer_from_object = (\<lambda>v. Inl (invalid_arg v))\<rparr>"

text \<open>An answer of the store with both views of its body, the text and the parsed JSON.\<close>

definition reply :: "nat \<Rightarrow> string \<Rightarrow> jsval \<Rightarrow> response" where
  "reply code txt parsed = \<lparr>r_status = code, r_text = Inr txt, r_json = Inr parsed\<rparr>"

text \<open>A store that cannot be reached: every \<^verbatim>\<open>fetch\<close> rejects.\<close>

definition unreachable :: remote where
  "unreachable tr c = Rejected ''fetch failed''"

definition not_found :: response where
  "not_found = reply 404 ''{\"message\":\"Not Found\"}'' (JObj [(''message'', JStr ''Not Found'')])"

text \<open>The store before the first write: nothing to read, every write accepted.\<close>

definition fresh_store :: remote where
  "fresh_store tr c =
     (if c_verb c = ''GET''
      then Responded not_found
      else Responded (reply 201 ''{}'' (JObj [])))"

text \<open>A store that answers every call with the file object of content \<open>c\<close> at version \<open>v1\<close>.\<close>

definition file_object :: "string \<Rightarrow> jsval" where
  "file_object c = JObj [(''content'', JStr c), (''sha'', JStr ''v1'')]"

definition holding :: "string \<Rightarrow> remote" where
  "holding c tr call = Responded (reply 200 ''{}'' (file_object c))"

text \<open>
  A store whose default branch is at commit \<^verbatim>\<open>abc\<close>, with no file yet, that accepts every
  write and answers it with the URL of a pull request.
\<close>

definition tip :: response where
  "tip = reply 200 ''{\"object\":{\"sha\":\"abc\"}}'' (JObj [(''object'', JObj [(''sha'', JStr ''abc'')])])"

definition fork_store :: remote where
  "fork_store tr c =
     (if c_verb c = ''GET''
      then (if c_url c = api @ ''/git/ref/heads/main'' then Responded tip
            else Responded not_found)
      else Responded (reply 201 ''{\"html_url\":\"https://github.com/compusophy/world-world/pull/1\"}''
             (JObj [(''html_url'', JStr ''https://github.com/compusophy/world-world/pull/1'')])))"

text \<open>
  A store that can be read but refuses every write, as it does for a credential without
  write access: status 403 and a JSON body with a \<^verbatim>\<open>message\<close>.
\<close>

definition refusal_text :: string where
  "refusal_text = ''{\"message\":\"Resource not accessible by personal access token\"}''"

definition refusal :: response where
  "refusal = reply 403 refusal_text
     (JObj [(''message'', JStr ''Resource not accessible by personal access token'')])"

definition read_only_store :: remote where
  "read_only_store tr c =
     (if c_verb c = ''GET''
      then (if c_url c = api @ ''/git/ref/heads/main'' then Responded tip
            else Responded (reply 200 ''{\"sha\":\"f00\",\"content\":\"aGk=\"}''
                   (JObj [(''sha'', JStr ''f00''), (''content'', JStr ''aGk='')])))
      else Responded refusal)"

text \<open>A store without the file that refuses every write.\<close>

definition refusing_store :: remote where
  "refusing_store tr c = (if c_verb c = ''GET'' then Responded not_found else Responded refusal)"

text \<open>A store that answers every read and drops the connection on every write.\<close>

definition flaky_store :: remote where
  "flaky_store tr c =
     (if c_verb c = ''GET''
      then (if c_url c = api @ ''/git/ref/heads/main'' then Responded tip
            else Responded not_found)
      else Rejected ''socket hang up'')"

text \<open>
  The store after an invocation whose writes it accepted: under each URL it holds what
  the calls wrote there, and delivers it as a file object at version \<open>v1\<close>.
\<close>

definition serving :: "call list \<Rightarrow> remote" where
  "serving calls tr c =
     (case written calls (c_url c) of
        Some (JStr s) \<Rightarrow> Responded (reply 200 ''{}'' (file_object s))
      | _ \<Rightarrow> Responded not_found)"

text \<open>Requests.\<close>

definition three_tokens :: request where
  "three_tokens = \<lparr>req_body = [(''token'', JStr ''B'')], req_query = [(''token'', JStr ''Q'')],
     req_params0 = []\<rparr>"

definition no_token :: request where
  "no_token = \<lparr>req_body = [(''content'', JStr ''hello''), (''filePath'', JStr ''a.txt'')],
     req_query = [], req_params0 = ''a.txt''\<rparr>"

definition hello_request :: request where
  "hello_request = \<lparr>req_body = [(''content'', JStr ''hello''), (''filePath'', JStr ''a.txt'')],
     req_query = [], req_params0 = []\<rparr>"

definition versioned_request :: request where
  "versioned_request = \<lparr>req_body = [(''content'', JStr ''hello''), (''filePath'', JStr ''a.txt''),
       (''sha'', JStr ''v0'')],
     req_query = [], req_params0 = []\<rparr>"

definition hello_read :: request where
  "hello_read = \<lparr>req_body = [], req_query = [], req_params0 = ''a.txt''\<rparr>"

definition untitled_request :: request where
  "untitled_request = \<lparr>req_body = [(''content'', JStr ''hello'')], req_query = [], req_params0 = []\<rparr>"

definition pr_request :: request where
  "pr_request = \<lparr>req_body = [(''title'', JStr ''Fix''), (''content'', JStr ''<html></html>''),
       (''filePath'', JStr ''index.html'')],
     req_query = [], req_params0 = []\<rparr>"

definition merge_request :: request where
  "merge_request = \<lparr>req_body = [(''prNumber'', JStr ''7'')], req_query = [], req_params0 = []\<rparr>"

definition image_request :: request where
  "image_request = \<lparr>req_body = [], req_query = [(''name'', JStr ''a.png'')], req_params0 = []\<rparr>"

text \<open>The first four bytes of every PNG file, their upload and the read of the uploaded file.\<close>

definition png_bytes :: string where
  "png_bytes = [CHR 0x89, CHR ''P'', CHR ''N'', CHR ''G'']"

definition png_upload :: request where
  "png_upload = \<lparr>req_body = [(''content'', JStr (base64_encode png_bytes)), (''filename'', JStr ''a.png'')],
     req_query = [], req_params0 = []\<rparr>"

definition png_read :: request where
  "png_read = \<lparr>req_body = [], req_query = [], req_params0 = ''images/a.png''\<rparr>"

section \<open>The byte transforms\<close>

lemma unbase64_b64_char: "i < 64 \<Longrightarrow> unbase64 (b64_char i) = Some i"
  by (auto simp: unbase64_def b64_char_def Let_def)

lemma b64_char_not_pad: "i < 64 \<Longrightarrow> b64_char i \<noteq> CHR ''=''"
proof
  assume a: "i < 64" and "b64_char i = CHR ''=''"
  then have "unbase64 (CHR ''='') = Some i" using unbase64_b64_char [OF a] by simp
  then show False by (simp add: unbase64_def)
qed

lemma sextets_legal: "i < 64 \<Longrightarrow> sextets (b64_char i # cs) = i # sextets cs"
  by (simp add: unbase64_b64_char b64_char_not_pad)

lemma sextets_pad: "sextets (CHR ''='' # cs) = []"
  by simp

lemma byte_div_bounds:
  "(of_char b :: nat) div 16 < 16" "(of_char c :: nat) div 64 < 4" "(of_char a :: nat) div 4 < 64"
proof -
  have "(of_char b :: nat) < 16 * 16" "(of_char c :: nat) < 4 * 64" "(of_char a :: nat) < 64 * 4"
    by simp_all
  then show "(of_char b :: nat) div 16 < 16" "(of_char c :: nat) div 64 < 4"
    "(of_char a :: nat) div 4 < 64"
    by (simp_all only: less_mult_imp_div_less)
qed

lemma sextet_bounds:
  "(of_char a :: nat) div 4 < 64"
  "(of_char a mod 4) * 16 + (of_char b :: nat) div 16 < 64"
  "(of_char a mod 4) * 16 < (64 :: nat)"
  "(of_char b mod 16) * 4 + (of_char c :: nat) div 64 < 64"
  "(of_char b mod 16) * 4 < (64 :: nat)"
  "(of_char c :: nat) mod 64 < 64"
proof -
  have a: "(of_char a :: nat) mod 4 < 4" and b: "(of_char b :: nat) mod 16 < 16" by simp_all
  show "(of_char a :: nat) div 4 < 64" by (rule byte_div_bounds)
  show "(of_char a mod 4) * 16 + (of_char b :: nat) div 16 < 64"
    using a byte_div_bounds(1) [of b] by linarith
  show "(of_char a mod 4) * 16 < (64 :: nat)" using a by linarith
  show "(of_char b mod 16) * 4 + (of_char c :: nat) div 64 < 64"
    using b byte_div_bounds(2) [of c] by linarith
  show "(of_char b mod 16) * 4 < (64 :: nat)" using b by linarith
  show "(of_char c :: nat) mod 64 < 64" by simp
qed

lemma first_byte: "x < 16 \<Longrightarrow> (a div 4) * 4 + ((a mod 4) * 16 + x) div 16 = (a::nat)"
  by simp

lemma first_byte_alone: "(a div 4) * 4 + ((a mod 4) * 16) div 16 = (a::nat)"
  by simp

lemma second_byte:
  "x < 16 \<Longrightarrow> y < 4 \<Longrightarrow>
     ((m * 16 + x) mod 16) * 16 + ((b mod 16) * 4 + y) div 4 = x * 16 + (b::nat) mod 16"
  by simp

lemma second_byte_alone:
  "x < 16 \<Longrightarrow> ((m * 16 + x) mod 16) * 16 + ((b mod 16) * 4) div 4 = x * 16 + (b::nat) mod 16"
  by simp

lemma third_byte: "y < 4 \<Longrightarrow> ((m * 4 + y) mod 4) * 64 + c mod 64 = y * 64 + (c::nat) mod 64"
  by simp

lemma decode_full_group:
  "decode_groups (of_char a div 4 # ((of_char a mod 4) * 16 + of_char b div 16) #
      ((of_char b mod 16) * 4 + of_char c div 64) # (of_char c mod 64) # r) =
   a # b # c # decode_groups r"
  by (simp add: first_byte second_byte third_byte byte_div_bounds)

lemma base64_round_trip: "base64_decode (base64_encode bs) = bs"
  unfolding base64_decode_def
proof (induction bs rule: base64_encode.induct)
  case 1
  show ?case by simp
next
  case (2 a)
  have "decode_groups [of_char a div 4, (of_char a mod 4) * 16] = [a]"
    by (simp add: first_byte_alone)
  then show ?case
    by (simp only: base64_encode.simps sextets_legal sextet_bounds sextets_pad)
next
  case (3 a b)
  have "decode_groups [of_char a div 4, (of_char a mod 4) * 16 + of_char b div 16,
      (of_char b mod 16) * 4] = [a, b]"
    by (simp add: first_byte second_byte_alone byte_div_bounds)
  then show ?case
    by (simp only: base64_encode.simps sextets_legal sextet_bounds sextets_pad)
next
  case (4 a b c rest)
  then show ?case
    by (simp only: base64_encode.simps append.simps sextets_legal sextet_bounds decode_full_group)
qed

text \<open>The decoder does not see the line breaks the store puts into its base64.\<close>

lemma sextets_skip_newline: "sextets (filter (\<lambda>c. c \<noteq> CHR 0x0A) s) = sextets s"
  by (induction s) (auto simp: unbase64_def Let_def)

lemma base64_decode_lines:
  "filter (\<lambda>c. c \<noteq> CHR 0x0A) s = base64_encode bs \<Longrightarrow> base64_decode s = bs"
  using base64_round_trip [of bs] sextets_skip_newline [of s] by (simp add: base64_decode_def)

text \<open>Decoding text as UTF-8 gives the text back.\<close>

lemma utf8_toString_text: "well_formed_utf8 s \<Longrightarrow> utf8_toString s = s"
proof (induction s rule: well_formed_utf8.induct)
  case 1
  show ?case by simp
next
  case (2 b0 bs)
  consider (ascii) "in_range 0x00 0x7F b0"
    | (two) "\<not> in_range 0x00 0x7F b0" "in_range 0xC2 0xDF b0"
    | (three) "\<not> in_range 0x00 0x7F b0" "\<not> in_range 0xC2 0xDF b0" "in_range 0xE0 0xEF b0"
    | (four) "\<not> in_range 0x00 0x7F b0" "\<not> in_range 0xC2 0xDF b0" "\<not> in_range 0xE0 0xEF b0"
        "in_range 0xF0 0xF4 b0"
    | (none) "\<not> in_range 0x00 0x7F b0" "\<not> in_range 0xC2 0xDF b0" "\<not> in_range 0xE0 0xEF b0"
        "\<not> in_range 0xF0 0xF4 b0"
    by blast
  then show ?case
  proof cases
    case ascii
    with "2.prems" have "well_formed_utf8 bs" by simp
    with "2.IH"(1) [OF ascii] ascii show ?thesis by simp
  next
    case two
    with "2.prems" obtain b1 r where bs: "bs = b1 # r" and b1: "in_range 0x80 0xBF b1"
      and r: "well_formed_utf8 r"
      by (cases bs) simp_all
    from "2.IH"(2) [OF two bs r] show ?thesis using two bs b1 by simp
  next
    case three
    with "2.prems" obtain b1 b2 r where bs: "bs = b1 # b2 # r"
      and b1: "in_range (second_lo b0) (second_hi b0) b1" and b2: "in_range 0x80 0xBF b2"
      and r: "well_formed_utf8 r"
      by (cases bs; cases "tl bs") simp_all
    from "2.IH"(3) [OF three bs refl r] show ?thesis using three bs b1 b2 by simp
  next
    case four
    with "2.prems" obtain b1 b2 b3 r where bs: "bs = b1 # b2 # b3 # r"
      and b1: "in_range (second_lo b0) (second_hi b0) b1" and b2: "in_range 0x80 0xBF b2"
      and b3: "in_range 0x80 0xBF b3" and r: "well_formed_utf8 r"
      by (cases bs; cases "tl bs"; cases "tl (tl bs)") simp_all
    from "2.IH"(4) [OF four bs refl refl r] show ?thesis using four bs b1 b2 b3 by simp
  next
    case none
    with "2.prems" show ?thesis by simp
  qed
qed

lemma target_path_default: "\<not> truthy filePath \<Longrightarrow> target_path filePath = ''index.html''"
  by (simp add: target_path_def js_or_def encodeURIComponent_def unreserved_def in_range_def)

text \<open>Distinct numbers print differently.\<close>

lemma show_nat_nonempty: "show_nat n \<noteq> []"
  by (subst show_nat.simps) simp

lemma digit_inj: "a < 10 \<Longrightarrow> b < 10 \<Longrightarrow> digit a = digit b \<Longrightarrow> a = b"
proof -
  assume a: "a < 10" and b: "b < 10" and e: "digit a = digit b"
  from e have "(of_char (digit a) :: nat) = of_char (digit b)" by simp
  then show ?thesis using a b by (simp add: digit_def)
qed

lemma show_nat_inj: "show_nat m = show_nat n \<Longrightarrow> m = n"
proof (induction m arbitrary: n rule: show_nat.induct)
  case (1 m)
  show ?case
  proof (cases "m < 10")
    case True
    then have m: "show_nat m = [digit m]" by (subst show_nat.simps) simp
    show ?thesis
    proof (cases "n < 10")
      case n: True
      then have "show_nat n = [digit n]" by (subst show_nat.simps) simp
      with m "1.prems" have "digit m = digit n" by simp
      with True n show ?thesis by (simp add: digit_inj)
    next
      case False
      then have "show_nat n = show_nat (n div 10) @ [digit (n mod 10)]"
        by (subst show_nat.simps) simp
      with m "1.prems" have "show_nat (n div 10) = []" by simp
      then show ?thesis by (simp add: show_nat_nonempty)
    qed
  next
    case False
    then have m: "show_nat m = show_nat (m div 10) @ [digit (m mod 10)]"
      by (subst show_nat.simps) simp
    show ?thesis
    proof (cases "n < 10")
      case True
      then have "show_nat n = [digit n]" by (subst show_nat.simps) simp
      with m "1.prems" have "show_nat (m div 10) = []" by simp
      then show ?thesis by (simp add: show_nat_nonempty)
    next
      case n: False
      then have "show_nat n = show_nat (n div 10) @ [digit (n mod 10)]"
        by (subst show_nat.simps) simp
      with m "1.prems" have e: "show_nat (m div 10) = show_nat (n div 10)"
        and d: "digit (m mod 10) = digit (n mod 10)" by simp_all
      from "1.IH" [OF False e] have "m div 10 = n div 10" .
      moreover from d have "m mod 10 = n mod 10" by (simp add: digit_inj)
      ultimately show ?thesis by (metis div_mult_mod_eq)
    qed
  qed
qed

lemma branchName_inj: "branchName rt1 = branchName rt2 \<Longrightarrow> Date_now rt1 = Date_now rt2"
  by (simp add: branchName_def show_nat_inj)

section \<open>Reasoning about the handlers\<close>

lemmas io_defs = Let_def try_catch_def io_bind_def io_return_def io_throw_def from_sum_def fetch_def

lemma getAuthToken_null_iff: "getAuthToken rt req = JNull \<longleftrightarrow> \<not> truthy (getAuthToken rt req)"
  by (auto simp: getAuthToken_def)

lemma spec_return: "Q x \<Longrightarrow> io_spec P Q C (io_return x)"
  by (simp add: io_spec_def io_return_def)

lemma spec_throw: "io_spec P Q C (io_throw e)"
  by (simp add: io_spec_def io_throw_def)

lemma spec_from_sum: "(\<And>x. r = Inr x \<Longrightarrow> Q x) \<Longrightarrow> io_spec P Q C (from_sum r)"
  by (simp add: io_spec_def from_sum_def split: sum.splits)

lemma spec_fetch:
  "C c \<Longrightarrow> (\<And>r tr. P tr \<Longrightarrow> R tr c = Responded r \<Longrightarrow> Q r) \<Longrightarrow> io_spec P Q C (fetch R c)"
  by (auto simp: io_spec_def fetch_def split: outcome.splits)

lemma spec_bind:
  assumes "io_spec P Q' C m" and "\<And>x. Q' x \<Longrightarrow> io_spec (\<lambda>_. True) Q C (f x)"
  shows "io_spec P Q C (io_bind m f)"
  unfolding io_spec_def
proof (intro allI impI)
  fix tr assume p: "P tr \<and> list_all C tr"
  obtain res tr' where m: "m tr = (res, tr')" by (cases "m tr")
  from assms(1) p m have c: "list_all C tr'" and q: "case res of Inl e \<Rightarrow> True | Inr x \<Rightarrow> Q' x"
    by (auto simp: io_spec_def)
  show "list_all C (snd (io_bind m f tr))
    \<and> (case fst (io_bind m f tr) of Inl e \<Rightarrow> True | Inr x \<Rightarrow> Q x)"
  proof (cases res)
    case (Inl e)
    with m c show ?thesis by (simp add: io_bind_def)
  next
    case (Inr x)
    with q have "Q' x" by simp
    from assms(2) [OF this] c
    have "list_all C (snd (f x tr')) \<and> (case fst (f x tr') of Inl e \<Rightarrow> True | Inr y \<Rightarrow> Q y)"
      by (simp add: io_spec_def)
    with m Inr show ?thesis by (simp add: io_bind_def)
  qed
qed

lemma spec_bind_any:
  "io_spec P (\<lambda>_. True) C m \<Longrightarrow> (\<And>x. io_spec (\<lambda>_. True) Q C (f x)) \<Longrightarrow>
     io_spec P Q C (io_bind m f)"
  by (rule spec_bind)

lemma spec_if:
  "(c \<Longrightarrow> io_spec P Q C a) \<Longrightarrow> (\<not> c \<Longrightarrow> io_spec P Q C b) \<Longrightarrow>
     io_spec P Q C (if c then a else b)"
  by simp

lemma spec_try_catch:
  assumes "io_spec (\<lambda>tr. tr = []) Q C m" and "\<And>e. Q (h e)"
  shows "Q (fst (try_catch m h)) \<and> list_all C (snd (try_catch m h))"
proof -
  obtain res tr where m: "m [] = (res, tr)" by (cases "m []")
  from assms(1) m have "list_all C tr" and "case res of Inl e \<Rightarrow> True | Inr x \<Rightarrow> Q x"
    by (auto simp: io_spec_def)
  with m assms(2) show ?thesis by (cases res) (simp_all add: try_catch_def)
qed

lemmas spec_rules = spec_return spec_throw spec_from_sum spec_fetch spec_bind_any spec_if

lemma extends_return: "io_extends (io_return x)"
  by (simp add: io_extends_def io_return_def)

lemma extends_throw: "io_extends (io_throw e)"
  by (simp add: io_extends_def io_throw_def)

lemma extends_from_sum: "io_extends (from_sum r)"
  by (simp add: io_extends_def from_sum_def)

lemma extends_fetch: "io_extends (fetch R c)"
  by (simp add: io_extends_def fetch_def split: outcome.splits)

lemma extends_bind:
  assumes "io_extends m" and "\<And>x. io_extends (f x)"
  shows "io_extends (io_bind m f)"
  unfolding io_extends_def
proof
  fix tr
  obtain res tr' where m: "m tr = (res, tr')" by (cases "m tr")
  from assms(1) have "\<exists>new. snd (m tr) = tr @ new" by (simp add: io_extends_def)
  with m obtain new where n: "tr' = tr @ new" by auto
  show "\<exists>new. snd (io_bind m f tr) = tr @ new"
  proof (cases res)
    case (Inl e)
    with m n show ?thesis by (simp add: io_bind_def)
  next
    case (Inr x)
    from assms(2) [of x] have "\<exists>more. snd (f x tr') = tr' @ more"
      by (simp add: io_extends_def)
    then obtain more where "snd (f x tr') = tr' @ more" by auto
    with m n Inr show ?thesis by (simp add: io_bind_def)
  qed
qed

lemma extends_if: "io_extends a \<Longrightarrow> io_extends b \<Longrightarrow> io_extends (if c then a else b)"
  by simp

lemmas extends_rules =
  extends_return extends_throw extends_from_sum extends_fetch extends_bind extends_if

lemma snd_try_catch: "snd (try_catch m h) = snd (m [])"
  by (simp add: try_catch_def split: prod.splits sum.splits)

text \<open>Rejected calls.\<close>

lemma outcomes_snoc: "outcomes R pre (xs @ [c]) = outcomes R pre xs @ [(c, R (pre @ xs) c)]"
  by (induction xs arbitrary: pre) simp_all

lemma reported_simps:
  "reported R (Inr x, tr) = answered R tr"
  "reported R (Inl e, tr) = (\<forall>c d. (c, Rejected d) \<in> set (outcomes R [] tr) \<longrightarrow> e = Error d)"
  by (simp_all add: reported_def)

lemma reports_return: "io_reports R (io_return x)"
  by (simp add: io_reports_def io_return_def reported_simps)

lemma reports_throw: "io_reports R (io_throw e)"
  by (simp add: io_reports_def io_throw_def reported_simps answered_def)

lemma reports_from_sum: "io_reports R (from_sum r)"
  by (cases r) (simp_all add: io_reports_def from_sum_def reported_simps answered_def)

lemma reports_fetch: "io_reports R (fetch R c)"
  by (auto simp: io_reports_def fetch_def outcomes_snoc reported_simps answered_def
      split: outcome.splits)

lemma reports_bind:
  assumes "io_reports R m" and "\<And>x. io_reports R (f x)"
  shows "io_reports R (io_bind m f)"
  unfolding io_reports_def
proof (intro allI impI)
  fix tr assume p: "answered R tr"
  obtain res tr' where m: "m tr = (res, tr')" by (cases "m tr")
  from assms(1) p have "reported R (m tr)" by (simp add: io_reports_def)
  with m have q: "reported R (res, tr')" by simp
  show "reported R (io_bind m f tr)"
  proof (cases res)
    case (Inl e)
    with q m show ?thesis by (simp add: io_bind_def reported_simps)
  next
    case (Inr x)
    with q have "answered R tr'" by (simp add: reported_simps)
    with assms(2) [of x] have "reported R (f x tr')" by (simp add: io_reports_def)
    with m Inr show ?thesis by (simp add: io_bind_def)
  qed
qed

lemma reports_if: "io_reports R a \<Longrightarrow> io_reports R b \<Longrightarrow> io_reports R (if c then a else b)"
  by simp

lemma reports_try_catch:
  assumes "io_reports R m" and "(c, Rejected d) \<in> set (outcomes R [] (snd (try_catch m h)))"
  shows "fst (try_catch m h) = h (Error d)"
proof -
  obtain res tr where m: "m [] = (res, tr)" by (cases "m []")
  from assms(1) have "reported R (m [])" by (simp add: io_reports_def answered_def)
  with m have q: "reported R (res, tr)" by simp
  from m assms(2) have r: "(c, Rejected d) \<in> set (outcomes R [] tr)"
    by (cases res) (simp_all add: try_catch_def)
  show ?thesis
  proof (cases res)
    case (Inl e)
    with q r have "e = Error d" by (simp add: reported_simps)
    with m Inl show ?thesis by (simp add: try_catch_def)
  next
    case (Inr x)
    with q r show ?thesis by (simp add: reported_simps answered_def)
  qed
qed

lemmas reports_rules =
  reports_return reports_throw reports_from_sum reports_fetch reports_bind reports_if

text \<open>Refused and accepted writes.\<close>

lemma outcomes_calls: "map fst (outcomes R pre tr) = tr"
  by (induction tr arbitrary: pre) simp_all

lemma outcomes_call: "(c, out) \<in> set (outcomes R pre tr) \<Longrightarrow> c \<in> set tr"
  using outcomes_calls [of R pre tr] by (metis fst_conv image_eqI set_map)

lemma accepted_snoc:
  "accepted R (tr @ [c]) = (case R tr c of Responded w \<Rightarrow> c_verb c = ''PUT'' \<and> ok w | _ \<Rightarrow> False)"
  by (simp add: accepted_def outcomes_snoc split: outcome.splits)

lemma accepted_put:
  assumes "list_all (\<lambda>c. c_verb c \<noteq> ''PUT'') tr"
  shows "\<not> accepted R tr"
proof (cases tr rule: rev_cases)
  case Nil
  then show ?thesis by (simp add: accepted_def)
next
  case (snoc ys y)
  with assms show ?thesis by (simp add: accepted_snoc split: outcome.splits)
qed

lemma write_reported_no_put:
  assumes "list_all (\<lambda>c. c_verb c \<noteq> ''PUT'') tr"
    and "case res of Inr x \<Rightarrow> \<not> succeeded x | Inl e \<Rightarrow> True"
  shows "write_reported R g (res, tr)"
proof -
  from assms(1) have "\<not> accepted R tr" by (rule accepted_put)
  moreover from assms(1) have "c_verb c \<noteq> ''PUT''" if "(c, out) \<in> set (outcomes R [] tr)" for c out
    using outcomes_call [OF that] by (simp add: list_all_iff)
  ultimately show ?thesis using assms(2) by (auto simp: write_reported_def split: sum.splits)
qed

lemma writes_return: "\<not> succeeded x \<Longrightarrow> io_writes R g (io_return x)"
  by (simp add: io_writes_def io_return_def write_reported_no_put)

lemma writes_if: "(c \<Longrightarrow> io_writes R g a) \<Longrightarrow> (\<not> c \<Longrightarrow> io_writes R g b) \<Longrightarrow> io_writes R g (if c then a else b)"
  by simp

lemma writes_bind:
  assumes "io_spec (\<lambda>_. True) (\<lambda>_. True) (\<lambda>c. c_verb c \<noteq> ''PUT'') m" and "\<And>x. io_writes R g (f x)"
  shows "io_writes R g (io_bind m f)"
  unfolding io_writes_def
proof (intro allI impI)
  fix tr :: "call list" assume p: "list_all (\<lambda>c. c_verb c \<noteq> ''PUT'') tr"
  obtain res tr' where m: "m tr = (res, tr')" by (cases "m tr")
  from assms(1) p have "list_all (\<lambda>c. c_verb c \<noteq> ''PUT'') (snd (m tr))"
    by (simp add: io_spec_def)
  with m have q: "list_all (\<lambda>c. c_verb c \<noteq> ''PUT'') tr'" by simp
  show "write_reported R g (io_bind m f tr)"
  proof (cases res)
    case (Inl e)
    from q have "write_reported R g (Inl e, tr')" by (rule write_reported_no_put) simp
    with m Inl show ?thesis by (simp add: io_bind_def)
  next
    case (Inr x)
    from assms(2) [of x] q have "write_reported R g (f x tr')" by (simp add: io_writes_def)
    with m Inr show ?thesis by (simp add: io_bind_def)
  qed
qed

lemma writes_put:
  assumes "c_verb c = ''PUT''" and "succeeded s"
  shows "io_writes R g (io_bind (fetch R c) (\<lambda>u.
     if \<not> ok u then io_bind (from_sum (r_text u)) (\<lambda>t. io_throw (Error (g t))) else io_return s))"
  unfolding io_writes_def
proof (intro allI impI)
  fix tr :: "call list" assume p: "list_all (\<lambda>c. c_verb c \<noteq> ''PUT'') tr"
  then have n: "c_verb c' \<noteq> ''PUT''" if "(c', out) \<in> set (outcomes R [] tr)" for c' out
    using outcomes_call [OF that] by (simp add: list_all_iff)
  let ?m = "io_bind (fetch R c) (\<lambda>u.
     if \<not> ok u then io_bind (from_sum (r_text u)) (\<lambda>t. io_throw (Error (g t))) else io_return s)"
  have run: "?m tr =
      ((case R tr c of
          Rejected d \<Rightarrow> Inl (Error d)
        | Responded w \<Rightarrow>
            if ok w then Inr s
            else (case r_text w of Inl e \<Rightarrow> Inl e | Inr raw \<Rightarrow> Inl (Error (g raw)))),
       tr @ [c])"
    by (simp add: io_bind_def fetch_def from_sum_def io_throw_def io_return_def
        split: outcome.splits sum.splits)
  show "write_reported R g (?m tr)"
    unfolding run write_reported_def
  proof (intro conjI allI impI)
    fix c' w raw
    assume a: "(c', Responded w) \<in> set (outcomes R [] (snd (case R tr c of
          Rejected d \<Rightarrow> Inl (Error d)
        | Responded w \<Rightarrow>
            if ok w then Inr s
            else (case r_text w of Inl e \<Rightarrow> Inl e | Inr raw \<Rightarrow> Inl (Error (g raw))), tr @ [c])))
      \<and> c_verb c' = ''PUT'' \<and> \<not> ok w \<and> r_text w = Inr raw"
    with n have "R tr c = Responded w" by (auto simp: outcomes_snoc)
    with a show "fst (case R tr c of
          Rejected d \<Rightarrow> Inl (Error d)
        | Responded w \<Rightarrow>
            if ok w then Inr s
            else (case r_text w of Inl e \<Rightarrow> Inl e | Inr raw \<Rightarrow> Inl (Error (g raw))), tr @ [c])
      = Inl (Error (g raw))" by simp
  next
    from assms show "(case fst (case R tr c of
          Rejected d \<Rightarrow> Inl (Error d)
        | Responded w \<Rightarrow>
            if ok w then Inr s
            else (case r_text w of Inl e \<Rightarrow> Inl e | Inr raw \<Rightarrow> Inl (Error (g raw))), tr @ [c]) of
        Inl e \<Rightarrow> False | Inr x \<Rightarrow> succeeded x) =
      accepted R (snd (case R tr c of
          Rejected d \<Rightarrow> Inl (Error d)
        | Responded w \<Rightarrow>
            if ok w then Inr s
            else (case r_text w of Inl e \<Rightarrow> Inl e | Inr raw \<Rightarrow> Inl (Error (g raw))), tr @ [c]))"
      by (simp add: accepted_snoc split: outcome.splits sum.splits)
  qed
qed

lemma writes_try_catch:
  assumes "io_writes R g m"
  shows "((c, Responded w) \<in> set (outcomes R [] (snd (try_catch m json_error))) \<and> c_verb c = ''PUT''
          \<and> \<not> ok w \<and> r_text w = Inr raw \<longrightarrow>
          fst (try_catch m json_error) = res_json [(''error'', JStr (g raw))])
     \<and> (succeeded (fst (try_catch m json_error)) \<longleftrightarrow> accepted R (snd (try_catch m json_error)))"
proof -
  obtain res tr where m: "m [] = (res, tr)" by (cases "m []")
  from assms have "write_reported R g (m [])" by (simp add: io_writes_def)
  with m have w: "write_reported R g (res, tr)" by simp
  have e: "\<not> succeeded (json_error e)" for e
    by (simp add: succeeded_def json_error_def res_json_def JSON_stringify_def)
  show ?thesis
  proof (cases res)
    case (Inl e)
    with w m e show ?thesis
      by (auto simp: write_reported_def try_catch_def json_error_def)
  next
    case (Inr x)
    with w m show ?thesis by (auto simp: write_reported_def try_catch_def)
  qed
qed

lemma not_succeeded_not_authenticated: "\<not> succeeded not_authenticated"
  by (simp add: succeeded_def not_authenticated_def res_json_def JSON_stringify_def)

lemma succeeded_res_json: "succeeded (res_json ((''success'', JStr s) # rest))"
  by (simp add: succeeded_def res_json_def JSON_stringify_def)

lemma commit_writes:
  "((c, Responded w) \<in> set (outcomes R [] (snd (commit rt R req))) \<and> c_verb c = ''PUT''
          \<and> \<not> ok w \<and> r_text w = Inr raw \<longrightarrow>
          fst (commit rt R req) = res_json [(''error'', JStr raw)])
     \<and> (succeeded (fst (commit rt R req)) \<longleftrightarrow> accepted R (snd (commit rt R req)))"
  unfolding commit_def Let_def
  apply (rule writes_try_catch [where g = "\<lambda>t. t"])
  apply (rule writes_if)
   apply (rule writes_return, rule not_succeeded_not_authenticated)
  apply (rule writes_bind)
   apply (intro spec_rules TrueI; simp add: api_get_def)
  apply (rule writes_bind)
   apply (intro spec_rules TrueI)
  apply (rule writes_put)
   apply (simp add: api_send_def)
  apply (rule succeeded_res_json)
  done


lemma upload_image_writes:
  "((c, Responded w) \<in> set (outcomes R [] (snd (upload_image rt R req))) \<and> c_verb c = ''PUT''
          \<and> \<not> ok w \<and> r_text w = Inr raw \<longrightarrow>
          fst (upload_image rt R req) =
            res_json [(''error'', JStr (''GitHub upload failed: '' @ raw))])
     \<and> (succeeded (fst (upload_image rt R req)) \<longleftrightarrow> accepted R (snd (upload_image rt R req)))"
  unfolding upload_image_def Let_def
  apply (rule writes_try_catch [where g = "\<lambda>t. ''GitHub upload failed: '' @ t"])
  apply (rule writes_if)
   apply (rule writes_return, rule not_succeeded_not_authenticated)
  apply (rule writes_bind)
   apply (intro spec_rules TrueI; simp add: api_get_def)
  apply (rule writes_bind)
   apply (intro spec_rules TrueI)
  apply (rule writes_put)
   apply (simp add: api_send_def)
  apply (rule succeeded_res_json)
  done

lemma merge_pr_writes:
  "((c, Responded w) \<in> set (outcomes R [] (snd (merge_pr rt R req))) \<and> c_verb c = ''PUT''
          \<and> \<not> ok w \<and> r_text w = Inr raw \<longrightarrow>
          fst (merge_pr rt R req) = res_json [(''error'', JStr raw)])
     \<and> (succeeded (fst (merge_pr rt R req)) \<longleftrightarrow> accepted R (snd (merge_pr rt R req)))"
  unfolding merge_pr_def Let_def
  apply (rule writes_try_catch [where g = "\<lambda>t. t"])
  apply (rule writes_if)
   apply (rule writes_return, rule not_succeeded_not_authenticated)
  apply (rule writes_put)
   apply (simp add: api_send_def)
  apply (rule succeeded_res_json)
  done


text \<open>Stepping through a body along the answers the remote gives.\<close>

lemma bind_fetch_responded:
  "R tr c = Responded r \<Longrightarrow> io_bind (fetch R c) f tr = f r (tr @ [c])"
  by (simp add: io_bind_def fetch_def)

lemma bind_from_sum_Inr: "io_bind (from_sum (Inr x)) f tr = f x tr"
  by (simp add: io_bind_def from_sum_def)

text \<open>Facts about the concrete processes and stores.\<close>

lemma anonymous_no_token: "getAuthToken anonymous no_token = JNull"
  by (simp add: getAuthToken_def env_credential_def body_credential_def query_credential_def
      field_def anonymous_def no_token_def)

lemma deployed_token: "getAuthToken deployed req = JStr ''E''"
  by (simp add: getAuthToken_def env_credential_def deployed_def)

lemma later_token: "getAuthToken later req = JStr ''E''"
  by (simp add: getAuthToken_def env_credential_def later_def)

lemma not_found_not_ok: "\<not> ok not_found"
  by (simp add: not_found_def reply_def ok_def)

lemma refusal_facts: "\<not> ok refusal" "r_text refusal = Inr refusal_text"
  by (simp_all add: refusal_def reply_def ok_def)

lemma file_object_facts:
  "ok (reply 200 txt (file_object c))"
  "r_json (reply 200 txt (file_object c)) = Inr (file_object c)"
  "get_prop (file_object c) ''content'' = Inr (JStr c)"
  "get_prop (file_object c) ''sha'' = Inr (JStr ''v1'')"
  by (simp_all add: file_object_def reply_def ok_def field_def)

lemma hello_base64: "base64_encode ''hello'' = ''aGVsbG8=''"
  by code_simp

lemma index_html_plain: "encodeURIComponent ''index.html'' = ''index.html''"
  by (simp add: encodeURIComponent_def unreserved_def in_range_def)

section \<open>Credential resolution\<close>

text \<open>
  Claim C3. Credential resolution returns the first present of the process-wide credential,
  the credential of the request body and the credential of the query parameters, in this
  order, and \<^verbatim>\<open>null\<close> when none is present. A source is present when it holds a value
  JavaScript takes for true: for a string, a non-empty one. The first conjunct compares
  \<open>getAuthToken\<close> with \<open>resolve\<close>, the first present candidate; the others are the cases the
  claim names.
\<close>

theorem getAuthToken_precedence:
  "getAuthToken rt req = (case resolve rt req of None \<Rightarrow> JNull | Some c \<Rightarrow> c)
   \<and> (truthy (env_credential rt) \<longrightarrow> getAuthToken rt req = env_credential rt)
   \<and> (\<not> truthy (env_credential rt) \<and> truthy (body_credential req)
        \<longrightarrow> getAuthToken rt req = body_credential req)
   \<and> (\<not> truthy (env_credential rt) \<and> \<not> truthy (body_credential req) \<and> truthy (query_credential req)
        \<longrightarrow> getAuthToken rt req = query_credential req)
   \<and> (\<not> truthy (env_credential rt) \<and> \<not> truthy (body_credential req) \<and> \<not> truthy (query_credential req)
        \<longrightarrow> getAuthToken rt req = JNull)"
  by (simp add: getAuthToken_def resolve_def candidates_def)

text \<open>
  With the environment variable, a body token and a query token all set, the environment
  wins; without the environment variable, the body token; with the query token alone, that
  one; with none, \<^verbatim>\<open>null\<close>.
\<close>

theorem getAuthToken_precedence_witness:
  "getAuthToken deployed three_tokens = JStr ''E''
   \<and> getAuthToken anonymous three_tokens = JStr ''B''
   \<and> getAuthToken anonymous (three_tokens\<lparr>req_body := []\<rparr>) = JStr ''Q''
   \<and> getAuthToken anonymous no_token = JNull"
  using getAuthToken_precedence [of deployed three_tokens]
    getAuthToken_precedence [of anonymous three_tokens]
    getAuthToken_precedence [of anonymous "three_tokens\<lparr>req_body := []\<rparr>"]
    getAuthToken_precedence [of anonymous no_token]
  by (simp add: env_credential_def body_credential_def query_credential_def field_def
      resolve_def candidates_def deployed_def anonymous_def three_tokens_def no_token_def)

text \<open>
  Claim C5. For every operation, when no credential is resolvable the operation answers
  with its authentication error and makes no remote call: the list of calls is empty,
  whatever the remote would have answered.
\<close>

theorem no_credential_no_remote_call:
  "getAuthToken rt req = JNull \<Longrightarrow> handle route rt R req = (unauthenticated route, [])"
  by (cases route)
    (simp_all add: auth_def test_token_def og_image_def upload_image_def commit_def create_pr_def
      merge_pr_def list_files_def load_file_def list_prs_def Let_def try_catch_def io_return_def)

theorem no_credential_no_remote_call_witness:
  "getAuthToken anonymous no_token = JNull
   \<and> handle POST_commit anonymous unreachable no_token = (not_authenticated, [])"
proof -
  have n: "getAuthToken anonymous no_token = JNull"
    by (simp add: getAuthToken_def env_credential_def body_credential_def query_credential_def
        field_def anonymous_def no_token_def)
  from no_credential_no_remote_call [OF n, of POST_commit unreachable] n show ?thesis by simp
qed

section \<open>The image proxy\<close>

lemma og_image_unfold:
  "og_image rt R req =
     (if \<not> truthy (getAuthToken rt req) then (res_send 401 ''Missing GITHUB_TOKEN env var'', [])
      else case R [] (image_call rt req) of
        Rejected m \<Rightarrow> (res_send 500 m, [image_call rt req])
      | Responded r \<Rightarrow>
          if \<not> ok r then (res_send 404 ''Image not found'', [image_call rt req])
          else case sum_bind (r_json r)
                 (\<lambda>data. sum_bind (get_prop data ''content'') (Buffer_from_base64 rt)) of
            Inl e \<Rightarrow> (res_send 500 (message e), [image_call rt req])
          | Inr bytes \<Rightarrow>
              (\<lparr>res_status = 200, res_headers = image_headers, res_body = SendBuffer bytes\<rparr>,
               [image_call rt req]))"
  by (simp add: og_image_def image_call_def image_headers_def Let_def try_catch_def io_bind_def
      io_return_def from_sum_def fetch_def sum_bind_def split: outcome.splits sum.splits)

text \<open>
  Claim C8, as stated: the image proxy always sets \<^verbatim>\<open>Cache-Control: no-cache, no-store,
  must-revalidate\<close> on its response. It does not on the answer to a request without a
  credential: the handler returns in line 72, before the headers are set in lines 96 to
  99. The same holds for its 404 and 500 answers.
\<close>

theorem og_image_error_without_cache_control:
  "res_status (fst (og_image anonymous unreachable no_token)) = 401
   \<and> map_of (res_headers (fst (og_image anonymous unreachable no_token))) ''Cache-Control'' = None"
  by (simp add: og_image_unfold res_send_def anonymous_no_token)

text \<open>
  Claim C8, amended: the image proxy sets \<^verbatim>\<open>Cache-Control: no-cache, no-store,
  must-revalidate\<close> on every answer that carries the fetched image (status 200), whatever
  the bytes fetched; every other answer is a 401, 404 or 500 and sets no header.
\<close>

theorem og_image_cache_control:
  "(case res_body (fst (og_image rt R req)) of
      SendBuffer bytes \<Rightarrow>
        res_status (fst (og_image rt R req)) = 200 \<and>
        map_of (res_headers (fst (og_image rt R req))) ''Cache-Control'' =
          Some ''no-cache, no-store, must-revalidate''
    | _ \<Rightarrow>
        res_status (fst (og_image rt R req)) \<in> {401, 404, 500} \<and>
        res_headers (fst (og_image rt R req)) = [])"
  by (simp add: og_image_unfold res_send_def image_headers_def split: outcome.splits sum.splits)

lemma holding_png:
  "og_image deployed (holding (base64_encode png_bytes)) image_request =
     (\<lparr>res_status = 200, res_headers = image_headers, res_body = SendBuffer png_bytes\<rparr>,
      [image_call deployed image_request])"
  by (simp add: og_image_unfold deployed_token holding_def file_object_facts sum_bind_def
      Buffer_from_base64_def base64_round_trip)

theorem og_image_cache_control_witness:
  "res_body (fst (og_image deployed (holding (base64_encode png_bytes)) image_request)) =
     SendBuffer png_bytes
   \<and> map_of (res_headers (fst (og_image deployed (holding (base64_encode png_bytes)) image_request)))
       ''Cache-Control'' = Some ''no-cache, no-store, must-revalidate''"
  using og_image_cache_control [of deployed "holding (base64_encode png_bytes)" image_request]
  by (simp add: holding_png)

text \<open>
  Claim C9. The image proxy answers 401 exactly when no credential is resolvable; with a
  credential, it answers 404 (a different outcome) when the remote does not deliver the
  object, in particular when the object is absent; and when the remote delivers the object
  with its base64 content, it answers 200 with the decoded bytes.
\<close>

theorem og_image_outcomes:
  "(res_status (fst (og_image rt R req)) = 401 \<longleftrightarrow> getAuthToken rt req = JNull)
   \<and> (truthy (getAuthToken rt req) \<and> R [] (image_call rt req) = Responded r \<and> \<not> ok r
        \<longrightarrow> og_image rt R req = (res_send 404 ''Image not found'', [image_call rt req]))
   \<and> (truthy (getAuthToken rt req) \<and> R [] (image_call rt req) = Responded r \<and> ok r
        \<and> r_json r = Inr data \<and> get_prop data ''content'' = Inr (JStr c)
        \<longrightarrow> res_status (fst (og_image rt R req)) = 200
            \<and> res_body (fst (og_image rt R req)) = SendBuffer (base64_decode c))"
  by (auto simp: og_image_unfold res_send_def getAuthToken_null_iff sum_bind_def
      Buffer_from_base64_def split: outcome.splits sum.splits)

text \<open>
  Without a credential the answer is 401; with one, an absent image gives 404 and a stored
  image gives its bytes.
\<close>

theorem og_image_outcomes_witness:
  "res_status (fst (og_image anonymous fresh_store image_request)) = 401
   \<and> res_status (fst (og_image deployed fresh_store image_request)) \<noteq> 401
   \<and> og_image deployed fresh_store image_request =
       (res_send 404 ''Image not found'', [image_call deployed image_request])
   \<and> res_status (fst (og_image deployed (holding (base64_encode png_bytes)) image_request)) = 200
   \<and> res_body (fst (og_image deployed (holding (base64_encode png_bytes)) image_request)) =
       SendBuffer png_bytes"
proof -
  have a: "getAuthToken anonymous image_request = JNull"
    by (simp add: getAuthToken_def env_credential_def body_credential_def query_credential_def
        field_def anonymous_def image_request_def)
  have t: "truthy (getAuthToken deployed image_request)"
    and u: "getAuthToken deployed image_request \<noteq> JNull" by (simp_all add: deployed_token)
  have absent: "fresh_store [] (image_call deployed image_request) = Responded not_found"
    by (simp add: fresh_store_def image_call_def api_get_def)
  have stored: "holding (base64_encode png_bytes) [] (image_call deployed image_request) =
      Responded (reply 200 ''{}'' (file_object (base64_encode png_bytes)))"
    by (simp add: holding_def)
  from og_image_outcomes [where rt = anonymous and R = fresh_store and req = image_request
      and r = not_found and data = JNull and c = "[]"] a
  have one: "res_status (fst (og_image anonymous fresh_store image_request)) = 401" by simp
  from og_image_outcomes [where rt = deployed and R = fresh_store and req = image_request
      and r = not_found and data = JNull and c = "[]"] u
  have other: "res_status (fst (og_image deployed fresh_store image_request)) \<noteq> 401" by simp
  from og_image_outcomes [where rt = deployed and R = fresh_store and req = image_request
      and r = not_found and data = JNull and c = "[]"] t absent not_found_not_ok
  have two: "og_image deployed fresh_store image_request =
      (res_send 404 ''Image not found'', [image_call deployed image_request])" by simp
  from og_image_outcomes [where rt = deployed and R = "holding (base64_encode png_bytes)"
      and req = image_request and r = "reply 200 ''{}'' (file_object (base64_encode png_bytes))"
      and data = "file_object (base64_encode png_bytes)" and c = "base64_encode png_bytes"]
    t stored file_object_facts
  have "res_status (fst (og_image deployed (holding (base64_encode png_bytes)) image_request)) = 200
    \<and> res_body (fst (og_image deployed (holding (base64_encode png_bytes)) image_request)) =
       SendBuffer (base64_decode (base64_encode png_bytes))" by (simp del: base64_encode.simps)
  with one other two show ?thesis by (simp add: base64_round_trip)
qed

section \<open>The commit operation\<close>

text \<open>
  Claim C1. When the caller gives no \<^verbatim>\<open>sha\<close> (and has a credential and a content
  \<^verbatim>\<open>Buffer.from\<close> accepts), the first call of the commit handler reads the target path.
  When the remote answers that read with a failure status, as it does for an absent file,
  the handler goes on and writes with the version unchanged: with \<^verbatim>\<open>sha\<close> omitted, the
  body of the write has no \<^verbatim>\<open>sha\<close> at all, and when the remote accepts the write the answer
  is the success envelope. When the read delivers a file object, the write carries the
  \<^verbatim>\<open>sha\<close> of that object.
\<close>

theorem commit_resolves_version:
  assumes "truthy (getAuthToken rt req)"
    and "\<not> truthy (field (req_body req) ''sha'')"
    and "Buffer_from rt (field (req_body req) ''content'') = Inr buffer"
  shows
    "(\<exists>rest. snd (commit rt R req) = read_call rt req # rest)
     \<and> (\<forall>r. R [] (read_call rt req) = Responded r \<and> \<not> ok r \<longrightarrow>
          snd (commit rt R req) =
            [read_call rt req, write_call rt req buffer (field (req_body req) ''sha'')]
          \<and> (field (req_body req) ''sha'' = JUndefined \<longrightarrow>
               c_body (write_call rt req buffer (field (req_body req) ''sha'')) =
                 Some (JObj
                   [(''message'', JStr (''Update '' @ to_string (field (req_body req) ''filePath'')
                       @ '' from web editor'')),
                    (''content'', JStr (base64_encode buffer))]))
          \<and> (\<forall>w. R [read_call rt req] (write_call rt req buffer (field (req_body req) ''sha''))
                   = Responded w \<and> ok w \<longrightarrow>
                 fst (commit rt R req) = committed))
     \<and> (\<forall>r f v. R [] (read_call rt req) = Responded r \<and> ok r \<and> r_json r = Inr f
            \<and> get_prop f ''sha'' = Inr v \<longrightarrow>
          snd (commit rt R req) = [read_call rt req, write_call rt req buffer v]
          \<and> (\<forall>w. R [read_call rt req] (write_call rt req buffer v) = Responded w \<and> ok w \<longrightarrow>
                 fst (commit rt R req) = committed))"
proof (intro conjI allI impI)
  show "\<exists>rest. snd (commit rt R req) = read_call rt req # rest"
    using assms
    by (auto simp: commit_def read_call_def io_defs split: outcome.splits sum.splits)
next
  fix r assume r: "R [] (read_call rt req) = Responded r \<and> \<not> ok r"
  with assms show "snd (commit rt R req) =
      [read_call rt req, write_call rt req buffer (field (req_body req) ''sha'')]"
    by (auto simp: commit_def read_call_def write_call_def io_defs split: outcome.splits sum.splits)
  show "c_body (write_call rt req buffer (field (req_body req) ''sha'')) =
      Some (JObj
        [(''message'', JStr (''Update '' @ to_string (field (req_body req) ''filePath'')
            @ '' from web editor'')),
         (''content'', JStr (base64_encode buffer))])"
    if "field (req_body req) ''sha'' = JUndefined"
    using that by (simp add: write_call_def api_send_def JSON_stringify_def)
  fix w assume "R [read_call rt req] (write_call rt req buffer (field (req_body req) ''sha''))
      = Responded w \<and> ok w"
  with assms r show "fst (commit rt R req) = committed"
    by (simp add: commit_def read_call_def write_call_def committed_def io_defs)
next
  fix r f v
  assume r: "R [] (read_call rt req) = Responded r \<and> ok r \<and> r_json r = Inr f
    \<and> get_prop f ''sha'' = Inr v"
  with assms show "snd (commit rt R req) = [read_call rt req, write_call rt req buffer v]"
    by (auto simp: commit_def read_call_def write_call_def io_defs split: outcome.splits sum.splits)
  fix w assume "R [read_call rt req] (write_call rt req buffer v) = Responded w \<and> ok w"
  with assms r show "fst (commit rt R req) = committed"
    by (simp add: commit_def read_call_def write_call_def committed_def io_defs)
qed

text \<open>
  The scenario of the specification: \<^verbatim>\<open>hello\<close> committed to \<^verbatim>\<open>a.txt\<close> with no \<^verbatim>\<open>sha\<close>,
  the file absent remotely. The handler reads, writes without a version, and answers
  \<^verbatim>\<open>{success: "Committed successfully!"}\<close>. On a store that holds the file at version
  \<^verbatim>\<open>v1\<close>, the write carries \<^verbatim>\<open>v1\<close>.
\<close>

theorem commit_resolves_version_witness:
  "truthy (getAuthToken deployed hello_request)
   \<and> field (req_body hello_request) ''sha'' = JUndefined
   \<and> commit deployed fresh_store hello_request =
       (committed, [read_call deployed hello_request,
                    write_call deployed hello_request ''hello'' JUndefined])
   \<and> c_url (read_call deployed hello_request) = contents_url ''a.txt''
   \<and> c_body (write_call deployed hello_request ''hello'' JUndefined) =
       Some (JObj [(''message'', JStr ''Update a.txt from web editor''),
                   (''content'', JStr ''aGVsbG8='')])
   \<and> commit deployed (holding ''aGk='') hello_request =
       (committed, [read_call deployed hello_request,
                    write_call deployed hello_request ''hello'' (JStr ''v1'')])"
proof -
  have t: "truthy (getAuthToken deployed hello_request)" by (simp add: deployed_token)
  have s: "field (req_body hello_request) ''sha'' = JUndefined"
    by (simp add: hello_request_def field_def)
  have b: "Buffer_from deployed (field (req_body hello_request) ''content'') = Inr ''hello''"
    by (simp add: hello_request_def field_def Buffer_from_def)
  have r: "fresh_store [] (read_call deployed hello_request) = Responded not_found"
    by (simp add: fresh_store_def read_call_def api_get_def)
  have w: "fresh_store [read_call deployed hello_request]
      (write_call deployed hello_request ''hello'' JUndefined) = Responded (reply 201 ''{}'' (JObj []))"
    by (simp add: fresh_store_def write_call_def api_send_def)
  have k: "ok (reply 201 ''{}'' (JObj []))" by (simp add: ok_def reply_def)
  have r': "holding ''aGk='' [] (read_call deployed hello_request) =
      Responded (reply 200 ''{}'' (file_object ''aGk=''))"
    and w': "holding ''aGk='' [read_call deployed hello_request]
      (write_call deployed hello_request ''hello'' (JStr ''v1'')) =
      Responded (reply 200 ''{}'' (file_object ''aGk=''))"
    by (simp_all add: holding_def)
  note inst = commit_resolves_version [of deployed hello_request "''hello''", OF t _ b]
  from inst [of fresh_store] s r not_found_not_ok w k
  have "snd (commit deployed fresh_store hello_request) =
        [read_call deployed hello_request, write_call deployed hello_request ''hello'' JUndefined]"
    and "fst (commit deployed fresh_store hello_request) = committed"
    and p: "c_body (write_call deployed hello_request ''hello'' JUndefined) =
       Some (JObj [(''message'', JStr (''Update '' @
           to_string (field (req_body hello_request) ''filePath'') @ '' from web editor'')),
         (''content'', JStr (base64_encode ''hello''))])"
    by (simp_all del: base64_encode.simps)
  then have c: "commit deployed fresh_store hello_request =
       (committed, [read_call deployed hello_request,
                    write_call deployed hello_request ''hello'' JUndefined])"
    by (simp add: prod_eq_iff)
  from inst [of "holding ''aGk=''"] s r' w' file_object_facts
  have "snd (commit deployed (holding ''aGk='') hello_request) =
        [read_call deployed hello_request, write_call deployed hello_request ''hello'' (JStr ''v1'')]"
    and "fst (commit deployed (holding ''aGk='') hello_request) = committed"
    by (simp_all del: base64_encode.simps)
  then have c': "commit deployed (holding ''aGk='') hello_request =
       (committed, [read_call deployed hello_request,
                    write_call deployed hello_request ''hello'' (JStr ''v1'')])"
    by (simp add: prod_eq_iff)
  have u: "c_url (read_call deployed hello_request) = contents_url ''a.txt''"
    by (simp add: read_call_def api_get_def target_path_def js_or_def hello_request_def field_def
        encodeURIComponent_def unreserved_def in_range_def)
  from p have p': "c_body (write_call deployed hello_request ''hello'' JUndefined) =
       Some (JObj [(''message'', JStr ''Update a.txt from web editor''),
                   (''content'', JStr ''aGVsbG8='')])"
    by (simp add: hello_request_def field_def hello_base64 del: base64_encode.simps)
  from t s c u p' c' show ?thesis by simp
qed

section \<open>The target path\<close>

lemma commit_calls:
  "list_all (\<lambda>c. c_url c = contents_url (target_path (field (req_body req) ''filePath'')))
     (snd (commit rt R req))"
  unfolding commit_def Let_def
  by (rule spec_try_catch [where Q = "\<lambda>_. True", THEN conjunct2])
    (intro spec_rules TrueI; simp add: api_get_def api_send_def)+

lemma create_pr_calls: "list_all (\<lambda>c. c_url c \<in> pr_urls req) (snd (create_pr rt R req))"
  unfolding create_pr_def Let_def
  by (rule spec_try_catch [where Q = "\<lambda>_. True", THEN conjunct2])
    (intro spec_rules TrueI; simp add: api_get_def api_send_def pr_urls_def)+

lemma contents_call_iff:
  "c_url c \<in> pr_urls req \<Longrightarrow>
     contents_call c \<longleftrightarrow> c_url c = contents_url (target_path (field (req_body req) ''filePath''))"
  by (auto simp: pr_urls_def contents_call_def contents_url_def api_def)

lemma contents_call_contents_url: "c_url c = contents_url p \<Longrightarrow> contents_call c"
  by (simp add: contents_call_def contents_url_def)

text \<open>
  Claim C10. When the caller gives no \<^verbatim>\<open>filePath\<close>, every call of the commit operation
  and every call of the pull-request operation that reads or writes a file (a call of the
  contents API; the other calls of the pull-request operation read the branch, create the
  branch and open the pull request) targets \<^verbatim>\<open>index.html\<close>. With or without a
  \<^verbatim>\<open>filePath\<close>, all such calls of one invocation have the same URL.
\<close>

theorem default_path:
  "(\<not> truthy (field (req_body req) ''filePath'') \<longrightarrow>
      (\<forall>c \<in> set (snd (commit rt R req)). contents_call c \<and> c_url c = contents_url ''index.html'')
      \<and> (\<forall>c \<in> set (snd (create_pr rt R req)).
            contents_call c \<longrightarrow> c_url c = contents_url ''index.html''))
   \<and> (\<forall>c \<in> set (snd (commit rt R req)). \<forall>c' \<in> set (snd (commit rt R req)). c_url c = c_url c')
   \<and> (\<forall>c \<in> set (snd (create_pr rt R req)). \<forall>c' \<in> set (snd (create_pr rt R req)).
         contents_call c \<and> contents_call c' \<longrightarrow> c_url c = c_url c')"
proof -
  have c: "\<forall>c \<in> set (snd (commit rt R req)).
      c_url c = contents_url (target_path (field (req_body req) ''filePath''))"
    using commit_calls [of req rt R] by (simp add: list_all_iff)
  have p: "\<forall>c \<in> set (snd (create_pr rt R req)). c_url c \<in> pr_urls req"
    using create_pr_calls [of req rt R] by (simp add: list_all_iff)
  show ?thesis
  proof (intro conjI impI ballI)
    fix c assume "\<not> truthy (field (req_body req) ''filePath'')" and "c \<in> set (snd (commit rt R req))"
    with c show "contents_call c" and "c_url c = contents_url ''index.html''"
      by (auto simp: target_path_default intro: contents_call_contents_url)
  next
    fix c assume "\<not> truthy (field (req_body req) ''filePath'')"
      and "c \<in> set (snd (create_pr rt R req))" and "contents_call c"
    with p show "c_url c = contents_url ''index.html''"
      by (auto simp: contents_call_iff target_path_default)
  next
    fix c c' assume "c \<in> set (snd (commit rt R req))" and "c' \<in> set (snd (commit rt R req))"
    with c show "c_url c = c_url c'" by simp
  next
    fix c c' assume m: "c \<in> set (snd (create_pr rt R req))" "c' \<in> set (snd (create_pr rt R req))"
      and k: "contents_call c \<and> contents_call c'"
    from p m have "c_url c \<in> pr_urls req" and "c_url c' \<in> pr_urls req" by simp_all
    with k show "c_url c = c_url c'" using contents_call_iff [of c req] contents_call_iff [of c' req]
      by simp
  qed
qed

text \<open>
  A commit that names no file reads and writes \<^verbatim>\<open>index.html\<close>: two calls, both on that
  path. A pull request that names no file makes five calls, of which the two on the
  contents API are on that path.
\<close>

theorem default_path_witness:
  "\<not> truthy (field (req_body untitled_request) ''filePath'')
   \<and> length (snd (commit deployed fresh_store untitled_request)) = 2
   \<and> list_all (\<lambda>c. contents_call c \<and> c_url c = contents_url ''index.html'')
       (snd (commit deployed fresh_store untitled_request))
   \<and> map contents_call (snd (create_pr deployed fork_store untitled_request)) =
       [False, False, True, True, False]
   \<and> list_all (\<lambda>c. c_url c = contents_url ''index.html'')
       (filter contents_call (snd (create_pr deployed fork_store untitled_request)))"
proof -
  have f: "\<not> truthy (field (req_body untitled_request) ''filePath'')"
    by (simp add: untitled_request_def field_def)
  have "length (snd (commit deployed fresh_store untitled_request)) = 2"
    by (simp add: commit_def io_defs deployed_token untitled_request_def field_def fresh_store_def
        api_get_def api_send_def Buffer_from_def not_found_def reply_def ok_def)
  moreover have "map contents_call (snd (create_pr deployed fork_store untitled_request)) =
       [False, False, True, True, False]"
    by (simp add: create_pr_def io_defs deployed_token untitled_request_def field_def fork_store_def
        tip_def api_get_def api_send_def Buffer_from_def not_found_def reply_def ok_def
        contents_call_def contents_url_def api_def)
  moreover from default_path [of untitled_request deployed fresh_store] f
  have "list_all (\<lambda>c. contents_call c \<and> c_url c = contents_url ''index.html'')
       (snd (commit deployed fresh_store untitled_request))"
    by (simp add: list_all_iff)
  moreover from default_path [of untitled_request deployed fork_store] f
  have "list_all (\<lambda>c. c_url c = contents_url ''index.html'')
       (filter contents_call (snd (create_pr deployed fork_store untitled_request)))"
    by (simp add: list_all_iff)
  ultimately show ?thesis using f by simp
qed

section \<open>The pull-request operation\<close>

lemma bind_fetch_extends:
  assumes "\<And>x. io_extends (f x)"
  shows "\<exists>rest. snd (io_bind (fetch R c) f [a]) = a # c # rest"
proof (cases "R [a] c")
  case (Rejected m)
  then show ?thesis by (simp add: io_bind_def fetch_def)
next
  case (Responded r)
  from assms [of r] have "\<forall>tr. \<exists>new. snd (f r tr) = tr @ new" by (simp add: io_extends_def)
  then obtain new where "snd (f r [a, c]) = [a, c] @ new" by blast
  with Responded show ?thesis by (simp add: io_bind_def fetch_def)
qed

lemma create_pr_forks:
  assumes "truthy (getAuthToken rt req)"
    and "R [] (main_call rt req) = Responded r" and "r_json r = Inr d"
    and "get_prop d ''object'' = Inr ob" and "get_prop ob ''sha'' = Inr base"
  shows "\<exists>rest. snd (create_pr rt R req) = main_call rt req # branch_call rt req base # rest"
  unfolding create_pr_def Let_def snd_try_catch main_call_def branch_call_def
  using assms
  apply (simp add: main_call_def bind_fetch_responded bind_from_sum_Inr)
  apply (rule bind_fetch_extends)
  apply (intro extends_rules)
  done

lemma create_pr_writes:
  "list_all (\<lambda>c. c_verb c = ''PUT'' \<longrightarrow> body_field c ''branch'' = JStr (branchName rt))
     (snd (create_pr rt R req))"
  unfolding create_pr_def Let_def
  by (rule spec_try_catch [where Q = "\<lambda>_. True", THEN conjunct2])
    (intro spec_rules TrueI;
      simp add: body_field_def api_get_def api_send_def JSON_stringify_def field_def)+

lemma create_pr_refs:
  "list_all (\<lambda>c. c_url c = api @ ''/git/refs'' \<longrightarrow>
       body_field c ''ref'' = JStr (''refs/heads/'' @ branchName rt))
     (snd (create_pr rt R req))"
  unfolding create_pr_def Let_def
  by (rule spec_try_catch [where Q = "\<lambda>_. True", THEN conjunct2])
    (intro spec_rules TrueI;
      simp add: body_field_def api_get_def api_send_def JSON_stringify_def field_def
        contents_url_def api_def)+

lemma branch_call_base: "body_field (branch_call rt req base) ''sha'' = base"
  by (simp add: body_field_def branch_call_def api_send_def JSON_stringify_def field_def)

text \<open>
  Claim C7. Two invocations of the pull-request operation at distinct clock values name
  distinct branches. Each invocation creates its branch under its own name, and when the
  reads of the default branch deliver the same tip to both, both branches are created at
  that commit. Every write of an invocation names the invocation's own branch, so no write
  of one invocation addresses the branch of the other.
\<close>

theorem pr_branches_isolated:
  assumes "Date_now rt1 \<noteq> Date_now rt2"
  shows
    "branchName rt1 \<noteq> branchName rt2
     \<and> (\<forall>c \<in> set (snd (create_pr rt1 R1 req1)). c_url c = api @ ''/git/refs'' \<longrightarrow>
           body_field c ''ref'' = JStr (''refs/heads/'' @ branchName rt1))
     \<and> (\<forall>c \<in> set (snd (create_pr rt2 R2 req2)). c_url c = api @ ''/git/refs'' \<longrightarrow>
           body_field c ''ref'' = JStr (''refs/heads/'' @ branchName rt2))
     \<and> (\<forall>r1 r2 d1 d2 o1 o2 base.
           truthy (getAuthToken rt1 req1) \<and> R1 [] (main_call rt1 req1) = Responded r1
           \<and> r_json r1 = Inr d1 \<and> get_prop d1 ''object'' = Inr o1 \<and> get_prop o1 ''sha'' = Inr base
           \<and> truthy (getAuthToken rt2 req2) \<and> R2 [] (main_call rt2 req2) = Responded r2
           \<and> r_json r2 = Inr d2 \<and> get_prop d2 ''object'' = Inr o2 \<and> get_prop o2 ''sha'' = Inr base
           \<longrightarrow>
           (\<exists>rest. snd (create_pr rt1 R1 req1) =
               main_call rt1 req1 # branch_call rt1 req1 base # rest)
           \<and> (\<exists>rest. snd (create_pr rt2 R2 req2) =
               main_call rt2 req2 # branch_call rt2 req2 base # rest)
           \<and> body_field (branch_call rt1 req1 base) ''sha'' = base
           \<and> body_field (branch_call rt2 req2 base) ''sha'' = base)
     \<and> (\<forall>c \<in> set (snd (create_pr rt1 R1 req1)). c_verb c = ''PUT'' \<longrightarrow>
           body_field c ''branch'' = JStr (branchName rt1))
     \<and> (\<forall>c \<in> set (snd (create_pr rt2 R2 req2)). c_verb c = ''PUT'' \<longrightarrow>
           body_field c ''branch'' = JStr (branchName rt2))
     \<and> (\<forall>c1 \<in> set (snd (create_pr rt1 R1 req1)). \<forall>c2 \<in> set (snd (create_pr rt2 R2 req2)).
           c_verb c1 = ''PUT'' \<and> c_verb c2 = ''PUT'' \<longrightarrow>
           body_field c1 ''branch'' \<noteq> body_field c2 ''branch'')"
proof -
  from assms have names: "branchName rt1 \<noteq> branchName rt2"
    using branchName_inj [of rt1 rt2] by blast
  have w1: "\<forall>c \<in> set (snd (create_pr rt1 R1 req1)). c_verb c = ''PUT'' \<longrightarrow>
      body_field c ''branch'' = JStr (branchName rt1)"
    using create_pr_writes [of rt1 R1 req1] by (simp add: list_all_iff)
  have w2: "\<forall>c \<in> set (snd (create_pr rt2 R2 req2)). c_verb c = ''PUT'' \<longrightarrow>
      body_field c ''branch'' = JStr (branchName rt2)"
    using create_pr_writes [of rt2 R2 req2] by (simp add: list_all_iff)
  have f1: "\<forall>c \<in> set (snd (create_pr rt1 R1 req1)). c_url c = api @ ''/git/refs'' \<longrightarrow>
      body_field c ''ref'' = JStr (''refs/heads/'' @ branchName rt1)"
    using create_pr_refs [of rt1 R1 req1] by (simp add: list_all_iff)
  have f2: "\<forall>c \<in> set (snd (create_pr rt2 R2 req2)). c_url c = api @ ''/git/refs'' \<longrightarrow>
      body_field c ''ref'' = JStr (''refs/heads/'' @ branchName rt2)"
    using create_pr_refs [of rt2 R2 req2] by (simp add: list_all_iff)
  have apart: "\<forall>c1 \<in> set (snd (create_pr rt1 R1 req1)). \<forall>c2 \<in> set (snd (create_pr rt2 R2 req2)).
      c_verb c1 = ''PUT'' \<and> c_verb c2 = ''PUT'' \<longrightarrow> body_field c1 ''branch'' \<noteq> body_field c2 ''branch''"
    using w1 w2 names by auto
  have forks: "\<forall>r1 r2 d1 d2 o1 o2 base.
      truthy (getAuthToken rt1 req1) \<and> R1 [] (main_call rt1 req1) = Responded r1
      \<and> r_json r1 = Inr d1 \<and> get_prop d1 ''object'' = Inr o1 \<and> get_prop o1 ''sha'' = Inr base
      \<and> truthy (getAuthToken rt2 req2) \<and> R2 [] (main_call rt2 req2) = Responded r2
      \<and> r_json r2 = Inr d2 \<and> get_prop d2 ''object'' = Inr o2 \<and> get_prop o2 ''sha'' = Inr base
      \<longrightarrow>
      (\<exists>rest. snd (create_pr rt1 R1 req1) = main_call rt1 req1 # branch_call rt1 req1 base # rest)
      \<and> (\<exists>rest. snd (create_pr rt2 R2 req2) = main_call rt2 req2 # branch_call rt2 req2 base # rest)
      \<and> body_field (branch_call rt1 req1 base) ''sha'' = base
      \<and> body_field (branch_call rt2 req2 base) ''sha'' = base"
    by (intro allI impI conjI branch_call_base) (auto intro: create_pr_forks)
  from names f1 f2 forks w1 w2 apart show ?thesis by blast
qed

lemma fork_store_run:
  "Date_now rt = t \<Longrightarrow> env_GITHUB_TOKEN rt = Some ''E'' \<Longrightarrow>
   Buffer_from_object rt = (\<lambda>v. Inl (invalid_arg v)) \<Longrightarrow>
   map (\<lambda>c. (c_verb c, body_field c ''branch'')) (snd (create_pr rt fork_store hello_request)) =
     [(''GET'', JUndefined), (''POST'', JUndefined), (''GET'', JUndefined),
      (''PUT'', JStr (branchName rt)), (''POST'', JUndefined)]"
  by (simp add: create_pr_def io_defs getAuthToken_def env_credential_def fork_store_def tip_def
      not_found_def reply_def ok_def api_get_def api_send_def hello_request_def field_def Buffer_from_def
      body_field_def JSON_stringify_def api_def contents_url_def)

text \<open>
  Two pull requests one millisecond apart, on a store whose default branch is at
  \<^verbatim>\<open>abc\<close>: two branch names, both branches created at \<^verbatim>\<open>abc\<close>, each write on its own
  branch.
\<close>

theorem pr_branches_isolated_witness:
  "Date_now deployed \<noteq> Date_now later
   \<and> branchName deployed \<noteq> branchName later
   \<and> (\<exists>rest. snd (create_pr deployed fork_store hello_request) =
        main_call deployed hello_request # branch_call deployed hello_request (JStr ''abc'') # rest)
   \<and> (\<exists>rest. snd (create_pr later fork_store hello_request) =
        main_call later hello_request # branch_call later hello_request (JStr ''abc'') # rest)
   \<and> map (\<lambda>c. (c_verb c, body_field c ''branch'')) (snd (create_pr deployed fork_store hello_request)) =
       [(''GET'', JUndefined), (''POST'', JUndefined), (''GET'', JUndefined),
        (''PUT'', JStr (branchName deployed)), (''POST'', JUndefined)]
   \<and> map (\<lambda>c. (c_verb c, body_field c ''branch'')) (snd (create_pr later fork_store hello_request)) =
       [(''GET'', JUndefined), (''POST'', JUndefined), (''GET'', JUndefined),
        (''PUT'', JStr (branchName later)), (''POST'', JUndefined)]"
proof -
  have d: "Date_now deployed \<noteq> Date_now later" by (simp add: deployed_def later_def)
  have t: "truthy (getAuthToken deployed hello_request)" "truthy (getAuthToken later hello_request)"
    by (simp_all add: getAuthToken_def env_credential_def deployed_def later_def)
  have m: "fork_store [] (main_call deployed hello_request) = Responded tip"
    "fork_store [] (main_call later hello_request) = Responded tip"
    by (simp_all add: fork_store_def main_call_def api_get_def)
  have j: "r_json tip = Inr (JObj [(''object'', JObj [(''sha'', JStr ''abc'')])])"
    "get_prop (JObj [(''object'', JObj [(''sha'', JStr ''abc'')])]) ''object'' = Inr (JObj [(''sha'', JStr ''abc'')])"
    "get_prop (JObj [(''sha'', JStr ''abc'')]) ''sha'' = Inr (JStr ''abc'')"
    by (simp_all add: tip_def reply_def field_def)
  from pr_branches_isolated [OF d, of fork_store hello_request fork_store hello_request] t m j
  have "branchName deployed \<noteq> branchName later"
    and "(\<exists>rest. snd (create_pr deployed fork_store hello_request) =
        main_call deployed hello_request # branch_call deployed hello_request (JStr ''abc'') # rest)
      \<and> (\<exists>rest. snd (create_pr later fork_store hello_request) =
        main_call later hello_request # branch_call later hello_request (JStr ''abc'') # rest)"
    by blast+
  moreover have "map (\<lambda>c. (c_verb c, body_field c ''branch''))
      (snd (create_pr deployed fork_store hello_request)) =
       [(''GET'', JUndefined), (''POST'', JUndefined), (''GET'', JUndefined),
        (''PUT'', JStr (branchName deployed)), (''POST'', JUndefined)]"
    by (rule fork_store_run [of deployed 1700000000000]) (simp_all add: deployed_def)
  moreover have "map (\<lambda>c. (c_verb c, body_field c ''branch''))
      (snd (create_pr later fork_store hello_request)) =
       [(''GET'', JUndefined), (''POST'', JUndefined), (''GET'', JUndefined),
        (''PUT'', JStr (branchName later)), (''POST'', JUndefined)]"
    by (rule fork_store_run [of later 1700000000001]) (simp_all add: later_def)
  ultimately show ?thesis using d by blast
qed

text \<open>
  Claim C2 says that a failed branch creation aborts the pull-request operation with an
  error result. The handler awaits the \<^verbatim>\<open>fetch\<close> of line 227 and never looks at its
  answer, so only a \<^verbatim>\<open>fetch\<close> that rejects aborts it. On a store that refuses every write
  with status 403, the branch creation fails; the handler goes on to read the file, to
  write it and to open the pull request (both refused as well), and answers with a success
  envelope whose URL is \<^verbatim>\<open>undefined\<close>.
\<close>

theorem create_pr_ignores_failed_branch_creation:
  "read_only_store [main_call deployed pr_request]
       (branch_call deployed pr_request (JStr ''abc'')) = Responded refusal
   \<and> r_status refusal = 403
   \<and> fst (create_pr deployed read_only_store pr_request) =
       res_json [(''success'', JStr ''PR created: undefined'')]
   \<and> map (\<lambda>c. (c_verb c, c_url c)) (snd (create_pr deployed read_only_store pr_request)) =
       [(''GET'', api @ ''/git/ref/heads/main''),
        (''POST'', api @ ''/git/refs''),
        (''GET'', contents_url ''index.html''),
        (''PUT'', contents_url ''index.html''),
        (''POST'', api @ ''/pulls'')]"
proof -
  have e: "encodeURIComponent ''index.html'' = ''index.html''"
    by (simp add: encodeURIComponent_def unreserved_def in_range_def)
  show ?thesis
    by (simp add: create_pr_def io_defs deployed_token read_only_store_def tip_def refusal_def
        reply_def ok_def api_get_def api_send_def pr_request_def field_def Buffer_from_def
        branch_call_def main_call_def target_path_def js_or_def e res_json_def JSON_stringify_def
        api_def contents_url_def)
qed

section \<open>The envelope of the mutating endpoints\<close>

lemma envelope_json_error: "is_envelope (json_error e)"
  by (simp add: is_envelope_def json_error_def res_json_def JSON_stringify_def is_string_def)

lemma upload_image_envelope: "is_envelope (fst (upload_image rt R req))"
  unfolding upload_image_def Let_def
  by (rule spec_try_catch [where C = "\<lambda>_. True", THEN conjunct1])
    (intro spec_rules TrueI envelope_json_error;
      simp add: is_envelope_def not_authenticated_def res_json_def JSON_stringify_def is_string_def)+

lemma commit_envelope: "is_envelope (fst (commit rt R req))"
  unfolding commit_def Let_def
  by (rule spec_try_catch [where C = "\<lambda>_. True", THEN conjunct1])
    (intro spec_rules TrueI envelope_json_error;
      simp add: is_envelope_def not_authenticated_def res_json_def JSON_stringify_def is_string_def)+

lemma create_pr_envelope: "is_envelope (fst (create_pr rt R req))"
  unfolding create_pr_def Let_def
  by (rule spec_try_catch [where C = "\<lambda>_. True", THEN conjunct1])
    (intro spec_rules TrueI envelope_json_error;
      simp add: is_envelope_def not_authenticated_def res_json_def JSON_stringify_def is_string_def)+

lemma merge_pr_envelope: "is_envelope (fst (merge_pr rt R req))"
  unfolding merge_pr_def Let_def
  by (rule spec_try_catch [where C = "\<lambda>_. True", THEN conjunct1])
    (intro spec_rules TrueI envelope_json_error;
      simp add: is_envelope_def not_authenticated_def res_json_def JSON_stringify_def is_string_def)+

lemma commit_reports:
  "(c, Rejected d) \<in> set (outcomes R [] (snd (commit rt R req))) \<Longrightarrow>
     fst (commit rt R req) = res_json [(''error'', JStr d)]"
  unfolding commit_def Let_def
  by (drule reports_try_catch [rotated]) (intro reports_rules, simp add: json_error_def)

lemma create_pr_reports:
  "(c, Rejected d) \<in> set (outcomes R [] (snd (create_pr rt R req))) \<Longrightarrow>
     fst (create_pr rt R req) = res_json [(''error'', JStr d)]"
  unfolding create_pr_def Let_def
  by (drule reports_try_catch [rotated]) (intro reports_rules, simp add: json_error_def)

lemma upload_image_reports:
  "(c, Rejected d) \<in> set (outcomes R [] (snd (upload_image rt R req))) \<Longrightarrow>
     fst (upload_image rt R req) = res_json [(''error'', JStr d)]"
  unfolding upload_image_def Let_def
  by (drule reports_try_catch [rotated]) (intro reports_rules, simp add: json_error_def)

lemma merge_pr_reports:
  "(c, Rejected d) \<in> set (outcomes R [] (snd (merge_pr rt R req))) \<Longrightarrow>
     fst (merge_pr rt R req) = res_json [(''error'', JStr d)]"
  unfolding merge_pr_def Let_def
  by (drule reports_try_catch [rotated]) (intro reports_rules, simp add: json_error_def)

lemma refused_upload:
  "upload_image deployed read_only_store png_upload =
     (json_error (Error (''GitHub upload failed: '' @ refusal_text)),
      [upload_read deployed png_upload, upload_write deployed png_upload (JStr ''f00'')])"
  by (simp add: upload_image_def io_defs deployed_token read_only_store_def refusal_def reply_def
      ok_def api_get_def api_send_def png_upload_def field_def upload_read_def upload_write_def
      js_or_def api_def contents_url_def del: base64_encode.simps)

lemma call_verbs:
  "c_verb (write_call rt req buffer v) = ''PUT''" "c_verb (merge_call rt req) = ''PUT''"
  "c_verb (upload_write rt req v) = ''PUT''"
  by (simp_all add: write_call_def merge_call_def upload_write_def api_send_def)

lemma unreachable_runs:
  "snd (upload_image deployed unreachable png_upload) = [upload_read deployed png_upload]"
  "snd (commit deployed unreachable hello_request) = [read_call deployed hello_request]"
  "snd (create_pr deployed unreachable pr_request) = [main_call deployed pr_request]"
  "snd (merge_pr deployed unreachable merge_request) = [merge_call deployed merge_request]"
  by (simp_all add: upload_image_def commit_def create_pr_def merge_pr_def io_defs deployed_token
      unreachable_def upload_read_def read_call_def main_call_def merge_call_def
      hello_request_def field_def)

lemma flaky_runs:
  "snd (upload_image deployed flaky_store png_upload) =
     [upload_read deployed png_upload, upload_write deployed png_upload JUndefined]"
  "snd (commit deployed flaky_store hello_request) =
     [read_call deployed hello_request, write_call deployed hello_request ''hello'' JUndefined]"
  "snd (create_pr deployed flaky_store pr_request) =
     [main_call deployed pr_request, branch_call deployed pr_request (JStr ''abc'')]"
  by (simp_all add: upload_image_def commit_def create_pr_def io_defs deployed_token
      flaky_store_def tip_def not_found_def reply_def ok_def api_get_def api_send_def
      upload_read_def upload_write_def read_call_def write_call_def main_call_def branch_call_def
      png_upload_def hello_request_def pr_request_def field_def Buffer_from_def js_or_def
      api_def contents_url_def del: base64_encode.simps)

lemma read_only_run:
  "snd (commit deployed read_only_store hello_request) =
     [read_call deployed hello_request, write_call deployed hello_request ''hello'' (JStr ''f00'')]"
  by (simp add: commit_def io_defs deployed_token read_only_store_def refusal_def reply_def
      ok_def api_get_def api_send_def read_call_def write_call_def hello_request_def field_def
      Buffer_from_def api_def contents_url_def del: base64_encode.simps)

lemma refusing_runs:
  "snd (commit deployed refusing_store versioned_request) =
     [write_call deployed versioned_request ''hello'' (JStr ''v0'')]"
  "snd (commit deployed refusing_store hello_request) =
     [read_call deployed hello_request, write_call deployed hello_request ''hello'' JUndefined]"
  "snd (merge_pr deployed refusing_store merge_request) = [merge_call deployed merge_request]"
  "snd (upload_image deployed refusing_store png_upload) =
     [upload_read deployed png_upload, upload_write deployed png_upload JUndefined]"
  by (simp_all add: upload_image_def commit_def merge_pr_def io_defs deployed_token
      refusing_store_def refusal_def not_found_def reply_def ok_def api_get_def api_send_def
      upload_read_def upload_write_def read_call_def write_call_def merge_call_def
      png_upload_def hello_request_def versioned_request_def merge_request_def field_def
      Buffer_from_def js_or_def del: base64_encode.simps)

lemma fresh_run:
  "snd (commit deployed fresh_store hello_request) =
     [read_call deployed hello_request, write_call deployed hello_request ''hello'' JUndefined]"
  by (simp add: commit_def io_defs deployed_token fresh_store_def not_found_def reply_def
      ok_def api_get_def api_send_def read_call_def write_call_def hello_request_def field_def
      Buffer_from_def del: base64_encode.simps)


text \<open>
  Claim C6, as stated: every failure of a mutating endpoint is reported as
  \<^verbatim>\<open>{error: message}\<close> with the remote store's raw error body as the message. The upload
  handler reports a refused write with the text \<^verbatim>\<open>GitHub upload failed:\<close> before the raw
  body (line 152).
\<close>

theorem upload_image_error_is_prefixed:
  "read_only_store [upload_read deployed png_upload] (upload_write deployed png_upload (JStr ''f00''))
     = Responded refusal
   \<and> r_text refusal = Inr refusal_text
   \<and> fst (upload_image deployed read_only_store png_upload) =
       res_json [(''error'', JStr (''GitHub upload failed: '' @ refusal_text))]
   \<and> fst (upload_image deployed read_only_store png_upload) \<noteq>
       res_json [(''error'', JStr refusal_text)]"
  by (simp add: refused_upload json_error_def res_json_def JSON_stringify_def refusal_def reply_def
      read_only_store_def upload_write_def api_send_def)

text \<open>
  Claim C6, amended. Each of the four mutating endpoints always answers with status 200
  and the envelope, whatever the remote does and whatever is thrown: no failure escapes
  the handler. Whenever a \<^verbatim>\<open>fetch\<close> of the invocation rejects, whichever call it is, the
  answer is \<^verbatim>\<open>{error: description}\<close>. Whenever the store refuses the write of \<^verbatim>\<open>/commit\<close>
  or the merge of \<^verbatim>\<open>/merge-pr\<close> (a \<^verbatim>\<open>PUT\<close> answered with a failure status), on whatever path
  the handler came to it, the answer is \<^verbatim>\<open>{error: raw body}\<close>; for the write of
  \<^verbatim>\<open>/upload-image\<close> it is the raw body after the text \<^verbatim>\<open>GitHub upload failed:\<close>. These
  three endpoints answer with \<^verbatim>\<open>success\<close> exactly when their last call was a \<^verbatim>\<open>PUT\<close> the
  store accepted; in every other case the envelope is the one with \<^verbatim>\<open>error\<close>. (What
  \<^verbatim>\<open>/create-pr\<close> answers when the store refuses a step is not part of this statement.)
\<close>

theorem mutating_endpoints_envelope:
  "is_envelope (fst (upload_image rt R req)) \<and> is_envelope (fst (commit rt R req))
   \<and> is_envelope (fst (create_pr rt R req)) \<and> is_envelope (fst (merge_pr rt R req))
   \<and> ((c, Rejected d) \<in> set (outcomes R [] (snd (upload_image rt R req)))
        \<longrightarrow> fst (upload_image rt R req) = res_json [(''error'', JStr d)])
   \<and> ((c, Rejected d) \<in> set (outcomes R [] (snd (commit rt R req)))
        \<longrightarrow> fst (commit rt R req) = res_json [(''error'', JStr d)])
   \<and> ((c, Rejected d) \<in> set (outcomes R [] (snd (create_pr rt R req)))
        \<longrightarrow> fst (create_pr rt R req) = res_json [(''error'', JStr d)])
   \<and> ((c, Rejected d) \<in> set (outcomes R [] (snd (merge_pr rt R req)))
        \<longrightarrow> fst (merge_pr rt R req) = res_json [(''error'', JStr d)])
   \<and> ((c, Responded w) \<in> set (outcomes R [] (snd (commit rt R req))) \<and> c_verb c = ''PUT''
        \<and> \<not> ok w \<and> r_text w = Inr raw
        \<longrightarrow> fst (commit rt R req) = res_json [(''error'', JStr raw)])
   \<and> ((c, Responded w) \<in> set (outcomes R [] (snd (merge_pr rt R req))) \<and> c_verb c = ''PUT''
        \<and> \<not> ok w \<and> r_text w = Inr raw
        \<longrightarrow> fst (merge_pr rt R req) = res_json [(''error'', JStr raw)])
   \<and> ((c, Responded w) \<in> set (outcomes R [] (snd (upload_image rt R req))) \<and> c_verb c = ''PUT''
        \<and> \<not> ok w \<and> r_text w = Inr raw
        \<longrightarrow> fst (upload_image rt R req) =
              res_json [(''error'', JStr (''GitHub upload failed: '' @ raw))])
   \<and> (succeeded (fst (commit rt R req)) \<longleftrightarrow> accepted R (snd (commit rt R req)))
   \<and> (succeeded (fst (merge_pr rt R req)) \<longleftrightarrow> accepted R (snd (merge_pr rt R req)))
   \<and> (succeeded (fst (upload_image rt R req)) \<longleftrightarrow> accepted R (snd (upload_image rt R req)))"
proof (intro conjI)
  show "is_envelope (fst (upload_image rt R req))" by (rule upload_image_envelope)
  show "is_envelope (fst (commit rt R req))" by (rule commit_envelope)
  show "is_envelope (fst (create_pr rt R req))" by (rule create_pr_envelope)
  show "is_envelope (fst (merge_pr rt R req))" by (rule merge_pr_envelope)
  show "(c, Rejected d) \<in> set (outcomes R [] (snd (upload_image rt R req)))
      \<longrightarrow> fst (upload_image rt R req) = res_json [(''error'', JStr d)]"
    by (rule impI) (rule upload_image_reports)
  show "(c, Rejected d) \<in> set (outcomes R [] (snd (commit rt R req)))
      \<longrightarrow> fst (commit rt R req) = res_json [(''error'', JStr d)]"
    by (rule impI) (rule commit_reports)
  show "(c, Rejected d) \<in> set (outcomes R [] (snd (create_pr rt R req)))
      \<longrightarrow> fst (create_pr rt R req) = res_json [(''error'', JStr d)]"
    by (rule impI) (rule create_pr_reports)
  show "(c, Rejected d) \<in> set (outcomes R [] (snd (merge_pr rt R req)))
      \<longrightarrow> fst (merge_pr rt R req) = res_json [(''error'', JStr d)]"
    by (rule impI) (rule merge_pr_reports)
  show "(c, Responded w) \<in> set (outcomes R [] (snd (commit rt R req))) \<and> c_verb c = ''PUT''
      \<and> \<not> ok w \<and> r_text w = Inr raw
      \<longrightarrow> fst (commit rt R req) = res_json [(''error'', JStr raw)]"
    by (rule commit_writes [THEN conjunct1])
  show "(c, Responded w) \<in> set (outcomes R [] (snd (merge_pr rt R req))) \<and> c_verb c = ''PUT''
      \<and> \<not> ok w \<and> r_text w = Inr raw
      \<longrightarrow> fst (merge_pr rt R req) = res_json [(''error'', JStr raw)]"
    by (rule merge_pr_writes [THEN conjunct1])
  show "(c, Responded w) \<in> set (outcomes R [] (snd (upload_image rt R req))) \<and> c_verb c = ''PUT''
      \<and> \<not> ok w \<and> r_text w = Inr raw
      \<longrightarrow> fst (upload_image rt R req) =
            res_json [(''error'', JStr (''GitHub upload failed: '' @ raw))]"
    by (rule upload_image_writes [THEN conjunct1])
  show "succeeded (fst (commit rt R req)) \<longleftrightarrow> accepted R (snd (commit rt R req))"
    by (rule commit_writes [THEN conjunct2])
  show "succeeded (fst (merge_pr rt R req)) \<longleftrightarrow> accepted R (snd (merge_pr rt R req))"
    by (rule merge_pr_writes [THEN conjunct2])
  show "succeeded (fst (upload_image rt R req)) \<longleftrightarrow> accepted R (snd (upload_image rt R req))"
    by (rule upload_image_writes [THEN conjunct2])
qed


text \<open>
  On a store that cannot be reached, each of the four endpoints answers with the
  description of the failed \<^verbatim>\<open>fetch\<close>; on a store that answers the reads and drops the
  connection on a write, with the description of that later failure. On a store that
  holds the file and refuses writes, the commit without \<^verbatim>\<open>sha\<close> resolves the version,
  has its write refused and answers with the raw error body, and the upload answers with
  the prefixed body. The same on a store without the file, with and without \<^verbatim>\<open>sha\<close>, and
  for a merge; all with status 200. On a store that accepts the write, the commit
  answers with \<^verbatim>\<open>success\<close>.
\<close>

theorem mutating_endpoints_envelope_witness:
  "fst (upload_image deployed unreachable png_upload) = res_json [(''error'', JStr ''fetch failed'')]
   \<and> fst (commit deployed unreachable hello_request) = res_json [(''error'', JStr ''fetch failed'')]
   \<and> fst (create_pr deployed unreachable pr_request) = res_json [(''error'', JStr ''fetch failed'')]
   \<and> fst (merge_pr deployed unreachable merge_request) = res_json [(''error'', JStr ''fetch failed'')]
   \<and> fst (upload_image deployed flaky_store png_upload) = res_json [(''error'', JStr ''socket hang up'')]
   \<and> fst (commit deployed flaky_store hello_request) = res_json [(''error'', JStr ''socket hang up'')]
   \<and> fst (create_pr deployed flaky_store pr_request) = res_json [(''error'', JStr ''socket hang up'')]
   \<and> snd (commit deployed read_only_store hello_request) =
       [read_call deployed hello_request, write_call deployed hello_request ''hello'' (JStr ''f00'')]
   \<and> fst (commit deployed read_only_store hello_request) = res_json [(''error'', JStr refusal_text)]
   \<and> fst (upload_image deployed read_only_store png_upload) =
       res_json [(''error'', JStr (''GitHub upload failed: '' @ refusal_text))]
   \<and> fst (commit deployed refusing_store versioned_request) = res_json [(''error'', JStr refusal_text)]
   \<and> fst (commit deployed refusing_store hello_request) = res_json [(''error'', JStr refusal_text)]
   \<and> fst (merge_pr deployed refusing_store merge_request) = res_json [(''error'', JStr refusal_text)]
   \<and> fst (upload_image deployed refusing_store png_upload) =
       res_json [(''error'', JStr (''GitHub upload failed: '' @ refusal_text))]
   \<and> succeeded (fst (commit deployed fresh_store hello_request))
   \<and> \<not> succeeded (fst (commit deployed refusing_store hello_request))
   \<and> res_status (fst (merge_pr deployed refusing_store merge_request)) = 200
   \<and> res_status (fst (create_pr deployed refusing_store pr_request)) = 200"
proof -
  have u: "unreachable tr c = Rejected ''fetch failed''" for tr c by (simp add: unreachable_def)
  have f: "flaky_store tr (write_call deployed req buffer v) = Rejected ''socket hang up''"
    "flaky_store tr (upload_write deployed req v) = Rejected ''socket hang up''"
    "flaky_store tr (branch_call deployed req v) = Rejected ''socket hang up''" for tr req buffer v
    by (simp_all add: flaky_store_def write_call_def upload_write_def branch_call_def api_send_def)
  have o: "read_only_store tr (write_call deployed req buffer v) = Responded refusal"
    "read_only_store tr (upload_write deployed req v) = Responded refusal" for tr req buffer v
    by (simp_all add: read_only_store_def write_call_def upload_write_def api_send_def)
  have p: "refusing_store tr (write_call deployed req buffer v) = Responded refusal"
    "refusing_store tr (merge_call deployed req) = Responded refusal"
    "refusing_store tr (upload_write deployed req v) = Responded refusal" for tr req buffer v
    by (simp_all add: refusing_store_def write_call_def merge_call_def upload_write_def api_send_def)
  have a: "fresh_store tr (write_call deployed req buffer v) = Responded (reply 201 ''{}'' (JObj []))"
    "ok (reply 201 ''{}'' (JObj []))" for tr req buffer v
    by (simp_all add: fresh_store_def write_call_def api_send_def ok_def reply_def)
  note n = refusal_facts call_verbs
  note inst = mutating_endpoints_envelope [where rt = deployed and w = refusal and raw = refusal_text]
  from inst [where R = unreachable and req = png_upload and c = "upload_read deployed png_upload"
      and d = "''fetch failed''"] u
  have a1: "fst (upload_image deployed unreachable png_upload) =
      res_json [(''error'', JStr ''fetch failed'')]" by (simp add: unreachable_runs)
  from inst [where R = unreachable and req = hello_request and c = "read_call deployed hello_request"
      and d = "''fetch failed''"] u
  have a2: "fst (commit deployed unreachable hello_request) =
      res_json [(''error'', JStr ''fetch failed'')]" by (simp add: unreachable_runs)
  from inst [where R = unreachable and req = pr_request and c = "main_call deployed pr_request"
      and d = "''fetch failed''"] u
  have a3: "fst (create_pr deployed unreachable pr_request) =
      res_json [(''error'', JStr ''fetch failed'')]" by (simp add: unreachable_runs)
  from inst [where R = unreachable and req = merge_request and c = "merge_call deployed merge_request"
      and d = "''fetch failed''"] u
  have a4: "fst (merge_pr deployed unreachable merge_request) =
      res_json [(''error'', JStr ''fetch failed'')]" by (simp add: unreachable_runs)
  from inst [where R = flaky_store and req = png_upload
      and c = "upload_write deployed png_upload JUndefined" and d = "''socket hang up''"] f
  have b1: "fst (upload_image deployed flaky_store png_upload) =
      res_json [(''error'', JStr ''socket hang up'')]" by (simp add: flaky_runs)
  from inst [where R = flaky_store and req = hello_request
      and c = "write_call deployed hello_request ''hello'' JUndefined" and d = "''socket hang up''"] f
  have b2: "fst (commit deployed flaky_store hello_request) =
      res_json [(''error'', JStr ''socket hang up'')]" by (simp add: flaky_runs)
  from inst [where R = flaky_store and req = pr_request
      and c = "branch_call deployed pr_request (JStr ''abc'')" and d = "''socket hang up''"] f
  have b3: "fst (create_pr deployed flaky_store pr_request) =
      res_json [(''error'', JStr ''socket hang up'')]" by (simp add: flaky_runs)
  from inst [where R = read_only_store and req = hello_request
      and c = "write_call deployed hello_request ''hello'' (JStr ''f00'')" and d = "[]"] o n
  have c1: "fst (commit deployed read_only_store hello_request) =
      res_json [(''error'', JStr refusal_text)]" by (simp add: read_only_run)
  from inst [where R = read_only_store and req = png_upload
      and c = "upload_write deployed png_upload (JStr ''f00'')" and d = "[]"] o n
  have c2: "fst (upload_image deployed read_only_store png_upload) =
      res_json [(''error'', JStr (''GitHub upload failed: '' @ refusal_text))]"
    by (simp add: refused_upload)
  from inst [where R = refusing_store and req = versioned_request
      and c = "write_call deployed versioned_request ''hello'' (JStr ''v0'')" and d = "[]"] p n
  have d1: "fst (commit deployed refusing_store versioned_request) =
      res_json [(''error'', JStr refusal_text)]" by (simp add: refusing_runs)
  from inst [where R = refusing_store and req = hello_request
      and c = "write_call deployed hello_request ''hello'' JUndefined" and d = "[]"] p n
  have d2: "fst (commit deployed refusing_store hello_request) =
      res_json [(''error'', JStr refusal_text)]" by (simp add: refusing_runs)
  from inst [where R = refusing_store and req = hello_request
      and c = "write_call deployed hello_request ''hello'' JUndefined" and d = "[]"] p n
  have d2': "\<not> succeeded (fst (commit deployed refusing_store hello_request))"
    by (simp add: refusing_runs accepted_def succeeded_def res_json_def JSON_stringify_def)
  from inst [where R = refusing_store and req = merge_request
      and c = "merge_call deployed merge_request" and d = "[]"] p n
  have d3: "fst (merge_pr deployed refusing_store merge_request) =
      res_json [(''error'', JStr refusal_text)]" by (simp add: refusing_runs)
  from inst [where R = refusing_store and req = png_upload
      and c = "upload_write deployed png_upload JUndefined" and d = "[]"] p n
  have d4: "fst (upload_image deployed refusing_store png_upload) =
      res_json [(''error'', JStr (''GitHub upload failed: '' @ refusal_text))]"
    by (simp add: refusing_runs)
  from inst [where R = fresh_store and req = hello_request
      and c = "write_call deployed hello_request ''hello'' JUndefined" and d = "[]"] a
  have s1: "succeeded (fst (commit deployed fresh_store hello_request))"
    by (simp add: fresh_run accepted_def call_verbs)
  from inst [where R = refusing_store and req = merge_request
      and c = "merge_call deployed merge_request" and d = "[]"]
  have e7: "is_envelope (fst (merge_pr deployed refusing_store merge_request))"
    by (elim conjE)
  from inst [where R = refusing_store and req = pr_request
      and c = "main_call deployed pr_request" and d = "[]"]
  have e9: "is_envelope (fst (create_pr deployed refusing_store pr_request))"
    by (elim conjE)
  from e7 e9 have "res_status (fst (merge_pr deployed refusing_store merge_request)) = 200"
    and "res_status (fst (create_pr deployed refusing_store pr_request)) = 200"
    by (simp_all add: is_envelope_def)
  with a1 a2 a3 a4 b1 b2 b3 c1 c2 d1 d2 d2' d3 d4 s1 show ?thesis
    by (simp add: read_only_run)
qed

section \<open>Writing and reading back\<close>

lemma load_file_unfold:
  "load_file rt R req =
     (if \<not> truthy (getAuthToken rt req) then (not_authenticated, [])
      else case R [] (file_call rt req) of
        Rejected m \<Rightarrow> (json_error (Error m), [file_call rt req])
      | Responded r \<Rightarrow>
          if \<not> ok r then (res_json [(''error'', JStr ''File not found'')], [file_call rt req])
          else case sum_bind (r_json r) (\<lambda>fileData.
                 sum_bind (get_prop fileData ''content'') (\<lambda>content.
                 sum_bind (Buffer_from_base64 rt content) (\<lambda>buffer.
                 sum_bind (get_prop fileData ''sha'') (\<lambda>sha.
                 Inr (res_json [(''content'', JStr (utf8_toString buffer)),
                                (''path'', JStr (req_params0 req)), (''sha'', sha)]))))) of
            Inl e \<Rightarrow> (json_error e, [file_call rt req])
          | Inr answer \<Rightarrow> (answer, [file_call rt req]))"
  by (simp add: load_file_def file_call_def Let_def try_catch_def io_bind_def io_return_def
      from_sum_def fetch_def sum_bind_def split: outcome.splits sum.splits)

lemma png_as_text: "utf8_toString png_bytes = replacement @ ''PNG''"
  by (simp add: png_bytes_def in_range_def)

lemma accepted_upload:
  "upload_image deployed fresh_store png_upload =
     (res_json [(''success'', JStr ''Image uploaded!''),
                (''url'', JStr (''https://world-world.vercel.app/og-image.png?name=a.png&t='' @
                    show_nat (Date_now deployed)))],
      [upload_read deployed png_upload, upload_write deployed png_upload JUndefined])"
  by (simp add: upload_image_def io_defs deployed_token fresh_store_def not_found_def reply_def
      ok_def api_get_def api_send_def png_upload_def field_def upload_read_def upload_write_def
      js_or_def del: base64_encode.simps)

lemma bind_from_sum_Inr_fun: "io_bind (from_sum (Inr x)) f = f x"
  by (rule ext) (simp add: io_bind_def from_sum_def)

lemma written_last:
  assumes "accepted R calls"
    and "list_all (\<lambda>c. c_verb c = ''PUT'' \<longrightarrow> c_url c = url \<and> body_field c ''content'' = v) calls"
  shows "written calls url = Some v"
proof (cases calls rule: rev_cases)
  case Nil
  with assms(1) show ?thesis by (simp add: accepted_def)
next
  case (snoc ys y)
  with assms(1) have "c_verb y = ''PUT''" by (simp add: accepted_snoc split: outcome.splits)
  with assms(2) snoc show ?thesis by (simp add: written_def)
qed

lemma commit_content:
  assumes "field (req_body req) ''content'' = JStr text"
  shows "list_all (\<lambda>c. c_verb c = ''PUT'' \<longrightarrow>
            c_url c = contents_url (target_path (field (req_body req) ''filePath''))
            \<and> body_field c ''content'' = JStr (base64_encode text))
     (snd (commit rt R req))"
proof -
  have b: "Buffer_from rt (JStr text) = Inr text" by (simp add: Buffer_from_def)
  show ?thesis
    unfolding commit_def Let_def assms b bind_from_sum_Inr_fun
    by (rule spec_try_catch [where Q = "\<lambda>_. True", THEN conjunct2])
      (intro spec_rules TrueI;
        simp add: body_field_def api_get_def api_send_def JSON_stringify_def field_def
          del: base64_encode.simps)+
qed

lemma upload_image_content:
  assumes "field (req_body req) ''content'' = JStr stored"
  shows "list_all (\<lambda>c. c_verb c = ''PUT'' \<longrightarrow>
            c_url c = contents_url (''images/'' @ to_string (field (req_body req) ''filename''))
            \<and> body_field c ''content'' = JStr stored)
     (snd (upload_image rt R req))"
  unfolding upload_image_def Let_def assms
  by (rule spec_try_catch [where Q = "\<lambda>_. True", THEN conjunct2])
    (intro spec_rules TrueI;
      simp add: body_field_def api_get_def api_send_def JSON_stringify_def field_def)+

lemma commit_written:
  assumes "field (req_body req) ''content'' = JStr text" and "succeeded (fst (commit rt R req))"
  shows "written (snd (commit rt R req)) (contents_url (target_path (field (req_body req) ''filePath'')))
    = Some (JStr (base64_encode text))"
proof -
  from assms(2) have "accepted R (snd (commit rt R req))"
    using commit_writes [THEN conjunct2] by blast
  then show ?thesis using commit_content [OF assms(1)] by (rule written_last)
qed

lemma upload_image_written:
  assumes "field (req_body req) ''content'' = JStr stored" and "succeeded (fst (upload_image rt R req))"
  shows "written (snd (upload_image rt R req))
      (contents_url (''images/'' @ to_string (field (req_body req) ''filename'')))
    = Some (JStr stored)"
proof -
  from assms(2) have "accepted R (snd (upload_image rt R req))"
    using upload_image_writes [THEN conjunct2] by blast
  then show ?thesis using upload_image_content [OF assms(1)] by (rule written_last)
qed

lemma write_call_content:
  "body_field (write_call rt req bytes version) ''content'' = JStr (base64_encode bytes)"
  by (simp add: body_field_def write_call_def api_send_def JSON_stringify_def field_def)

lemma fresh_commit:
  "commit deployed fresh_store hello_request =
     (committed, [read_call deployed hello_request,
                  write_call deployed hello_request ''hello'' JUndefined])"
  by (simp add: commit_def io_defs deployed_token fresh_store_def not_found_def reply_def
      ok_def api_get_def api_send_def read_call_def write_call_def hello_request_def field_def
      Buffer_from_def committed_def del: base64_encode.simps)

lemma a_txt: "encodeURIComponent ''a.txt'' = ''a.txt''"
  by (simp add: encodeURIComponent_def unreserved_def in_range_def)

lemma hello_urls:
  "c_url (file_call deployed hello_read) = contents_url ''a.txt''"
  "c_url (write_call deployed hello_request buffer v) = contents_url ''a.txt''"
  "c_verb (write_call deployed hello_request buffer v) = ''PUT''"
  "target_path (field (req_body hello_request) ''filePath'') = ''a.txt''"
  by (simp_all add: file_call_def write_call_def api_get_def api_send_def target_path_def js_or_def
      hello_read_def hello_request_def field_def a_txt)

lemma png_urls:
  "c_url (image_call deployed image_request) = contents_url ''images/a.png''"
  "c_url (upload_write deployed png_upload v) = contents_url ''images/a.png''"
  "c_verb (upload_write deployed png_upload v) = ''PUT''"
  "body_field (upload_write deployed png_upload v) ''content'' = JStr (base64_encode png_bytes)"
  by (simp_all add: image_call_def upload_write_def api_get_def api_send_def js_or_def
      image_request_def png_upload_def field_def body_field_def JSON_stringify_def
      del: base64_encode.simps)

text \<open>
  Claim C4, as stated: a write of any byte content followed by a read of the same path
  gives back exactly that content. The four bytes that begin every PNG file are uploaded
  to \<^verbatim>\<open>images/a.png\<close> (the store receives their base64 text and later delivers it); the
  read of \<^verbatim>\<open>images/a.png\<close> through \<^verbatim>\<open>/file/*\<close> decodes the base64 to the same four bytes
  and then reads them as UTF-8 text (line 329): the first byte, \<open>0x89\<close>, is not UTF-8 and
  comes back as U+FFFD.
\<close>

theorem binary_content_not_read_back:
  "snd (upload_image deployed fresh_store png_upload) =
     [upload_read deployed png_upload, upload_write deployed png_upload JUndefined]
   \<and> body_field (upload_write deployed png_upload JUndefined) ''content'' =
       JStr (base64_encode png_bytes)
   \<and> base64_decode (base64_encode png_bytes) = png_bytes
   \<and> fst (load_file deployed (holding (base64_encode png_bytes)) png_read) =
       res_json [(''content'', JStr (replacement @ ''PNG'')), (''path'', JStr ''images/a.png''),
                 (''sha'', JStr ''v1'')]
   \<and> replacement @ ''PNG'' \<noteq> png_bytes"
proof -
  have "body_field (upload_write deployed png_upload JUndefined) ''content'' =
       JStr (base64_encode png_bytes)"
    by (simp add: body_field_def upload_write_def api_send_def JSON_stringify_def png_upload_def
        field_def js_or_def del: base64_encode.simps)
  moreover have "fst (load_file deployed (holding (base64_encode png_bytes)) png_read) =
       res_json [(''content'', JStr (replacement @ ''PNG'')), (''path'', JStr ''images/a.png''),
                 (''sha'', JStr ''v1'')]"
    by (simp add: load_file_unfold deployed_token holding_def file_object_facts sum_bind_def
        Buffer_from_base64_def base64_round_trip png_as_text png_read_def
        del: base64_encode.simps)
  moreover have "replacement @ ''PNG'' \<noteq> png_bytes"
    by (simp add: replacement_def png_bytes_def)
  ultimately show ?thesis by (simp add: accepted_upload base64_round_trip)
qed

text \<open>
  Claim C4, amended. The base64 decoding undoes the base64 encoding for arbitrary bytes,
  also when the store has broken the base64 text into lines. So the image proxy answers
  with exactly the bytes whose base64 text the store delivers. A commit that succeeds has
  written the base64 text of the bytes of its content under the URL of its path. When the
  content is text (well-formed UTF-8) and the store then delivers, for a read of the same
  path through \<^verbatim>\<open>/file/*\<close>, what the commit has written there (in one line or several),
  the read answers with exactly the content. Likewise an upload that succeeds has written
  the base64 text it was given under the URL of the image, and the image proxy asked for
  the same name then answers with exactly the bytes that text encodes, whatever they are.
\<close>

theorem content_round_trip:
  "base64_decode (base64_encode bytes) = bytes
   \<and> (filter (\<lambda>c. c \<noteq> CHR 0x0A) stored = base64_encode bytes \<longrightarrow> base64_decode stored = bytes)
   \<and> (truthy (getAuthToken rt req) \<and> R [] (image_call rt req) = Responded r \<and> ok r
        \<and> r_json r = Inr data \<and> get_prop data ''content'' = Inr (JStr stored)
        \<and> filter (\<lambda>c. c \<noteq> CHR 0x0A) stored = base64_encode bytes
        \<longrightarrow> res_body (fst (og_image rt R req)) = SendBuffer bytes)
   \<and> (Buffer_from rt (JStr bytes) = Inr bytes
        \<and> body_field (write_call rt req bytes version) ''content'' = JStr (base64_encode bytes))
   \<and> (well_formed_utf8 bytes \<and> truthy (getAuthToken rt req)
        \<and> R [] (file_call rt req) = Responded r \<and> ok r
        \<and> r_json r = Inr data \<and> get_prop data ''content'' = Inr (JStr stored)
        \<and> filter (\<lambda>c. c \<noteq> CHR 0x0A) stored = base64_encode bytes
        \<and> get_prop data ''sha'' = Inr version
        \<longrightarrow> fst (load_file rt R req) =
              res_json [(''content'', JStr bytes), (''path'', JStr (req_params0 req)),
                        (''sha'', version)])
   \<and> (field (req_body put) ''content'' = JStr bytes \<and> succeeded (fst (commit rt W put))
        \<longrightarrow> written (snd (commit rt W put))
                (contents_url (target_path (field (req_body put) ''filePath''))) =
              Some (JStr (base64_encode bytes)))
   \<and> (well_formed_utf8 bytes
        \<and> field (req_body put) ''content'' = JStr bytes \<and> succeeded (fst (commit rt W put))
        \<and> req_params0 req = to_string (js_or (field (req_body put) ''filePath'') (JStr ''index.html''))
        \<and> truthy (getAuthToken rt req)
        \<and> R [] (file_call rt req) = Responded r \<and> ok r
        \<and> r_json r = Inr data \<and> get_prop data ''content'' = Inr (JStr stored)
        \<and> get_prop data ''sha'' = Inr version
        \<and> written (snd (commit rt W put)) (c_url (file_call rt req)) =
            Some (JStr (filter (\<lambda>c. c \<noteq> CHR 0x0A) stored))
        \<longrightarrow> fst (load_file rt R req) =
              res_json [(''content'', JStr bytes), (''path'', JStr (req_params0 req)),
                        (''sha'', version)])
   \<and> (field (req_body put) ''content'' = JStr (base64_encode bytes)
        \<and> succeeded (fst (upload_image rt W put))
        \<longrightarrow> written (snd (upload_image rt W put))
                (contents_url (''images/'' @ to_string (field (req_body put) ''filename''))) =
              Some (JStr (base64_encode bytes)))
   \<and> (field (req_body put) ''content'' = JStr (base64_encode bytes)
        \<and> succeeded (fst (upload_image rt W put))
        \<and> to_string (js_or (field (req_query req) ''name'') (JStr ''og-image.png'')) =
            to_string (field (req_body put) ''filename'')
        \<and> truthy (getAuthToken rt req)
        \<and> R [] (image_call rt req) = Responded r \<and> ok r
        \<and> r_json r = Inr data \<and> get_prop data ''content'' = Inr (JStr stored)
        \<and> written (snd (upload_image rt W put)) (c_url (image_call rt req)) =
            Some (JStr (filter (\<lambda>c. c \<noteq> CHR 0x0A) stored))
        \<longrightarrow> res_body (fst (og_image rt R req)) = SendBuffer bytes)"
proof (intro conjI impI)
  show "base64_decode (base64_encode bytes) = bytes" by (rule base64_round_trip)
  show "base64_decode stored = bytes" if "filter (\<lambda>c. c \<noteq> CHR 0x0A) stored = base64_encode bytes"
    using that by (rule base64_decode_lines)
  show "Buffer_from rt (JStr bytes) = Inr bytes" by (simp add: Buffer_from_def)
  show "body_field (write_call rt req bytes version) ''content'' = JStr (base64_encode bytes)"
    by (simp add: body_field_def write_call_def api_send_def JSON_stringify_def field_def)
next
  assume a: "truthy (getAuthToken rt req) \<and> R [] (image_call rt req) = Responded r \<and> ok r
    \<and> r_json r = Inr data \<and> get_prop data ''content'' = Inr (JStr stored)
    \<and> filter (\<lambda>c. c \<noteq> CHR 0x0A) stored = base64_encode bytes"
  then have "base64_decode stored = bytes" by (simp add: base64_decode_lines)
  with a show "res_body (fst (og_image rt R req)) = SendBuffer bytes"
    by (simp add: og_image_unfold sum_bind_def Buffer_from_base64_def)
next
  assume a: "well_formed_utf8 bytes \<and> truthy (getAuthToken rt req)
    \<and> R [] (file_call rt req) = Responded r \<and> ok r
    \<and> r_json r = Inr data \<and> get_prop data ''content'' = Inr (JStr stored)
    \<and> filter (\<lambda>c. c \<noteq> CHR 0x0A) stored = base64_encode bytes
    \<and> get_prop data ''sha'' = Inr version"
  then have "base64_decode stored = bytes" and "utf8_toString bytes = bytes"
    by (simp_all add: base64_decode_lines utf8_toString_text)
  with a show "fst (load_file rt R req) =
      res_json [(''content'', JStr bytes), (''path'', JStr (req_params0 req)), (''sha'', version)]"
    by (simp add: load_file_unfold sum_bind_def Buffer_from_base64_def)
next
  assume "field (req_body put) ''content'' = JStr bytes \<and> succeeded (fst (commit rt W put))"
  then show "written (snd (commit rt W put))
      (contents_url (target_path (field (req_body put) ''filePath''))) =
      Some (JStr (base64_encode bytes))"
    by (simp add: commit_written del: base64_encode.simps)
next
  assume a: "well_formed_utf8 bytes
    \<and> field (req_body put) ''content'' = JStr bytes \<and> succeeded (fst (commit rt W put))
    \<and> req_params0 req = to_string (js_or (field (req_body put) ''filePath'') (JStr ''index.html''))
    \<and> truthy (getAuthToken rt req)
    \<and> R [] (file_call rt req) = Responded r \<and> ok r
    \<and> r_json r = Inr data \<and> get_prop data ''content'' = Inr (JStr stored)
    \<and> get_prop data ''sha'' = Inr version
    \<and> written (snd (commit rt W put)) (c_url (file_call rt req)) =
        Some (JStr (filter (\<lambda>c. c \<noteq> CHR 0x0A) stored))"
  then have u: "c_url (file_call rt req) =
      contents_url (target_path (field (req_body put) ''filePath''))"
    by (simp add: file_call_def api_get_def target_path_def)
  from a have "written (snd (commit rt W put))
      (contents_url (target_path (field (req_body put) ''filePath''))) =
      Some (JStr (base64_encode bytes))"
    by (simp add: commit_written del: base64_encode.simps)
  with a u have "filter (\<lambda>c. c \<noteq> CHR 0x0A) stored = base64_encode bytes" by simp
  with a have "base64_decode stored = bytes" and "utf8_toString bytes = bytes"
    by (simp_all add: base64_decode_lines utf8_toString_text)
  with a show "fst (load_file rt R req) =
      res_json [(''content'', JStr bytes), (''path'', JStr (req_params0 req)), (''sha'', version)]"
    by (simp add: load_file_unfold sum_bind_def Buffer_from_base64_def)
next
  assume a: "field (req_body put) ''content'' = JStr (base64_encode bytes)
    \<and> succeeded (fst (upload_image rt W put))"
  from a [THEN conjunct1] a [THEN conjunct2]
  show "written (snd (upload_image rt W put))
      (contents_url (''images/'' @ to_string (field (req_body put) ''filename''))) =
      Some (JStr (base64_encode bytes))"
    by (rule upload_image_written)
next
  assume a: "field (req_body put) ''content'' = JStr (base64_encode bytes)
    \<and> succeeded (fst (upload_image rt W put))
    \<and> to_string (js_or (field (req_query req) ''name'') (JStr ''og-image.png'')) =
        to_string (field (req_body put) ''filename'')
    \<and> truthy (getAuthToken rt req)
    \<and> R [] (image_call rt req) = Responded r \<and> ok r
    \<and> r_json r = Inr data \<and> get_prop data ''content'' = Inr (JStr stored)
    \<and> written (snd (upload_image rt W put)) (c_url (image_call rt req)) =
        Some (JStr (filter (\<lambda>c. c \<noteq> CHR 0x0A) stored))"
  then have u: "c_url (image_call rt req) =
      contents_url (''images/'' @ to_string (field (req_body put) ''filename''))"
    by (simp add: image_call_def api_get_def)
  from a [THEN conjunct1] a [THEN conjunct2, THEN conjunct1]
  have "written (snd (upload_image rt W put))
      (contents_url (''images/'' @ to_string (field (req_body put) ''filename''))) =
      Some (JStr (base64_encode bytes))"
    by (rule upload_image_written)
  with a u have "filter (\<lambda>c. c \<noteq> CHR 0x0A) stored = base64_encode bytes" by simp
  then have "base64_decode stored = bytes" by (simp add: base64_decode_lines)
  with a show "res_body (fst (og_image rt R req)) = SendBuffer bytes"
    by (simp add: og_image_unfold sum_bind_def Buffer_from_base64_def)
qed


text \<open>
  The text \<^verbatim>\<open>hello\<close>: the commit to \<^verbatim>\<open>a.txt\<close> on a store that accepts it sends
  \<^verbatim>\<open>aGVsbG8=\<close>, and the read of \<^verbatim>\<open>a.txt\<close> from the store that holds what the commit wrote
  answers \<^verbatim>\<open>hello\<close>; so does a store that delivers \<^verbatim>\<open>aGVsbG8=\<close> in two lines. The four
  bytes of \<open>png_bytes\<close>, uploaded as \<^verbatim>\<open>a.png\<close>, come back unchanged from the image proxy.
\<close>

theorem content_round_trip_witness:
  "well_formed_utf8 ''hello''
   \<and> body_field (write_call deployed hello_request ''hello'' JUndefined) ''content'' = JStr ''aGVsbG8=''
   \<and> fst (load_file deployed (holding ''aGVsbG8='') hello_read) =
       res_json [(''content'', JStr ''hello''), (''path'', JStr ''a.txt''), (''sha'', JStr ''v1'')]
   \<and> base64_decode ''aGVs\<newline>bG8='' = ''hello''
   \<and> fst (load_file deployed (holding ''aGVs\<newline>bG8='') hello_read) =
       res_json [(''content'', JStr ''hello''), (''path'', JStr ''a.txt''), (''sha'', JStr ''v1'')]
   \<and> res_body (fst (og_image deployed (holding (base64_encode png_bytes)) image_request)) =
       SendBuffer png_bytes
   \<and> succeeded (fst (commit deployed fresh_store hello_request))
   \<and> written (snd (commit deployed fresh_store hello_request)) (contents_url ''a.txt'') =
       Some (JStr ''aGVsbG8='')
   \<and> fst (load_file deployed (serving (snd (commit deployed fresh_store hello_request))) hello_read) =
       res_json [(''content'', JStr ''hello''), (''path'', JStr ''a.txt''), (''sha'', JStr ''v1'')]
   \<and> succeeded (fst (upload_image deployed fresh_store png_upload))
   \<and> written (snd (upload_image deployed fresh_store png_upload)) (contents_url ''images/a.png'') =
       Some (JStr (base64_encode png_bytes))
   \<and> res_body (fst (og_image deployed (serving (snd (upload_image deployed fresh_store png_upload)))
         image_request)) = SendBuffer png_bytes"
proof -
  have wf: "well_formed_utf8 ''hello''" by (simp add: in_range_def)
  have t: "truthy (getAuthToken deployed hello_read)" "truthy (getAuthToken deployed image_request)"
    by (simp_all add: deployed_token)
  have s: "holding c [] (file_call deployed hello_read) = Responded (reply 200 ''{}'' (file_object c))"
    "holding c [] (image_call deployed image_request) = Responded (reply 200 ''{}'' (file_object c))"
    for c by (simp_all add: holding_def)
  have f: "filter (\<lambda>c. c \<noteq> CHR 0x0A) ''aGVsbG8='' = base64_encode ''hello''"
    "filter (\<lambda>c. c \<noteq> CHR 0x0A) ''aGVs\<newline>bG8='' = base64_encode ''hello''"
    by (simp_all add: hello_base64 del: base64_encode.simps)
  have g: "filter (\<lambda>c. c \<noteq> CHR 0x0A) (base64_encode png_bytes) = base64_encode png_bytes"
    by code_simp
  have p: "req_params0 hello_read = ''a.txt''"
    "to_string (js_or (field (req_body hello_request) ''filePath'') (JStr ''index.html'')) = ''a.txt''"
    "to_string (js_or (field (req_query image_request) ''name'') (JStr ''og-image.png'')) = ''a.png''"
    "to_string (field (req_body png_upload) ''filename'') = ''a.png''"
    "field (req_body hello_request) ''content'' = JStr ''hello''"
    "field (req_body png_upload) ''content'' = JStr (base64_encode png_bytes)"
    by (simp_all add: hello_read_def hello_request_def image_request_def png_upload_def field_def
        js_or_def del: base64_encode.simps)
  have k: "succeeded (fst (commit deployed fresh_store hello_request))"
    "succeeded (fst (upload_image deployed fresh_store png_upload))"
    by (simp_all add: fresh_commit accepted_upload committed_def succeeded_res_json)
  have w: "written (snd (commit deployed fresh_store hello_request)) (contents_url ''a.txt'') =
      Some (JStr ''aGVsbG8='')"
    "written (snd (upload_image deployed fresh_store png_upload)) (contents_url ''images/a.png'') =
      Some (JStr (base64_encode png_bytes))"
    by (simp_all add: fresh_commit accepted_upload written_def hello_urls png_urls
        write_call_content hello_base64 del: base64_encode.simps)
  have v: "serving (snd (commit deployed fresh_store hello_request)) []
        (file_call deployed hello_read) = Responded (reply 200 ''{}'' (file_object ''aGVsbG8=''))"
    "serving (snd (upload_image deployed fresh_store png_upload)) []
        (image_call deployed image_request) =
      Responded (reply 200 ''{}'' (file_object (base64_encode png_bytes)))"
    by (simp_all add: serving_def hello_urls png_urls w del: base64_encode.simps)
  note inst = content_round_trip [where rt = deployed and version = "JStr ''v1''"]
  from inst [where bytes = "''hello''" and stored = "''aGVsbG8=''"
      and req = hello_read and R = "holding ''aGVsbG8=''"
      and r = "reply 200 ''{}'' (file_object ''aGVsbG8='')" and data = "file_object ''aGVsbG8=''"
      and put = hello_request and W = fresh_store]
    wf t s f file_object_facts
  have one: "fst (load_file deployed (holding ''aGVsbG8='') hello_read) =
      res_json [(''content'', JStr ''hello''), (''path'', JStr (req_params0 hello_read)),
                (''sha'', JStr ''v1'')]"
    by (simp del: base64_encode.simps)
  from inst [where bytes = "''hello''" and stored = "''aGVs\<newline>bG8=''"
      and req = hello_read and R = "holding ''aGVs\<newline>bG8=''"
      and r = "reply 200 ''{}'' (file_object ''aGVs\<newline>bG8='')"
      and data = "file_object ''aGVs\<newline>bG8=''" and put = hello_request and W = fresh_store]
    wf t s f file_object_facts
  have two: "base64_decode ''aGVs\<newline>bG8='' = ''hello''"
    and three: "fst (load_file deployed (holding ''aGVs\<newline>bG8='') hello_read) =
      res_json [(''content'', JStr ''hello''), (''path'', JStr (req_params0 hello_read)),
                (''sha'', JStr ''v1'')]"
    by (simp_all del: base64_encode.simps)
  from inst [where bytes = png_bytes and stored = "base64_encode png_bytes"
      and req = image_request and R = "holding (base64_encode png_bytes)"
      and r = "reply 200 ''{}'' (file_object (base64_encode png_bytes))"
      and data = "file_object (base64_encode png_bytes)" and put = png_upload and W = fresh_store]
    t s g file_object_facts
  have four: "res_body (fst (og_image deployed (holding (base64_encode png_bytes)) image_request)) =
      SendBuffer png_bytes"
    by (simp del: base64_encode.simps)
  from content_round_trip [where rt = deployed and version = JUndefined
      and bytes = "''hello''" and stored = "''aGVsbG8=''"
      and req = hello_request and R = fresh_store and r = not_found and data = JNull
      and put = hello_request and W = fresh_store]
  have five: "body_field (write_call deployed hello_request ''hello'' JUndefined) ''content'' =
      JStr (base64_encode ''hello'')"
    by (elim conjE)
  from inst [where bytes = "''hello''" and stored = "''aGVsbG8=''"
      and req = hello_read
      and R = "serving (snd (commit deployed fresh_store hello_request))"
      and r = "reply 200 ''{}'' (file_object ''aGVsbG8='')" and data = "file_object ''aGVsbG8=''"
      and put = hello_request and W = fresh_store]
    wf t p k v file_object_facts
  have six: "written (snd (commit deployed fresh_store hello_request))
        (contents_url (target_path (field (req_body hello_request) ''filePath''))) =
      Some (JStr (base64_encode ''hello''))"
    by (simp del: base64_encode.simps)
  from inst [where bytes = "''hello''" and stored = "''aGVsbG8=''"
      and req = hello_read
      and R = "serving (snd (commit deployed fresh_store hello_request))"
      and r = "reply 200 ''{}'' (file_object ''aGVsbG8='')" and data = "file_object ''aGVsbG8=''"
      and put = hello_request and W = fresh_store]
    wf t p k v w file_object_facts
  have seven: "fst (load_file deployed (serving (snd (commit deployed fresh_store hello_request)))
        hello_read) =
      res_json [(''content'', JStr ''hello''), (''path'', JStr (req_params0 hello_read)),
                (''sha'', JStr ''v1'')]"
    by (simp add: hello_urls del: base64_encode.simps)
  from inst [where bytes = png_bytes and stored = "base64_encode png_bytes"
      and req = image_request
      and R = "serving (snd (upload_image deployed fresh_store png_upload))"
      and r = "reply 200 ''{}'' (file_object (base64_encode png_bytes))"
      and data = "file_object (base64_encode png_bytes)" and put = png_upload and W = fresh_store]
    t p k v w g file_object_facts
  have eight: "res_body (fst (og_image deployed
        (serving (snd (upload_image deployed fresh_store png_upload))) image_request)) =
      SendBuffer png_bytes"
    by (simp add: png_urls del: base64_encode.simps)
  from wf one two three four five six seven eight k w p show ?thesis
    by (simp add: hello_base64 hello_urls del: base64_encode.simps)
qed

end
